theory Spec2Isabelle
  imports Main
begin

section \<open>Strings and token kinds\<close>

text \<open>
  A JavaScript string is a sequence of UTF-16 code units; \<open>length\<close>, indexing and
  \<open>slice\<close> all count code units. A code unit is modelled as a \<open>nat\<close>; the only place
  where the lexer builds a code unit from a number is \<open>String.fromCharCode\<close>, whose
  reduction modulo \<open>2 ^ 16\<close> is written out below.
\<close>

type_synonym jsstring = "nat list"

definition js :: "string \<Rightarrow> jsstring" where
  "js s = map of_char s"

definition slice :: "jsstring \<Rightarrow> nat \<Rightarrow> nat \<Rightarrow> jsstring" where
  "slice s a b = take (b - a) (drop a s)"

definition startsWith :: "jsstring \<Rightarrow> jsstring \<Rightarrow> bool" where
  "startsWith s p = (take (length p) s = p)"

text \<open>
  Modelled from the spec: \<open>token.ts\<close>, which declares the enumeration \<open>TokenType\<close>, is
  not among the sources. A TypeScript enumeration is a set of distinct numbers, so each
  kind that the lexer tables and the parser name is given an ordinal of its own. One
  further value stands for what \<open>keywords[name]\<close> yields when \<open>name\<close> is not a key of
  the table itself but a member inherited from \<open>Object.prototype\<close>.
\<close>

type_synonym TokenType = nat

named_theorems TokenType_defs

definition AndKeyword :: TokenType where [TokenType_defs]: "AndKeyword = 0"
definition OrKeyword :: TokenType where [TokenType_defs]: "OrKeyword = 1"
definition NotKeyword :: TokenType where [TokenType_defs]: "NotKeyword = 2"
definition ForKeyword :: TokenType where [TokenType_defs]: "ForKeyword = 3"
definition WhileKeyword :: TokenType where [TokenType_defs]: "WhileKeyword = 4"
definition ContinueKeyword :: TokenType where [TokenType_defs]: "ContinueKeyword = 5"
definition BreakKeyword :: TokenType where [TokenType_defs]: "BreakKeyword = 6"
definition ReturnKeyword :: TokenType where [TokenType_defs]: "ReturnKeyword = 7"
definition MacroKeyword :: TokenType where [TokenType_defs]: "MacroKeyword = 8"
definition PublicKeyword :: TokenType where [TokenType_defs]: "PublicKeyword = 9"
definition PrivateKeyword :: TokenType where [TokenType_defs]: "PrivateKeyword = 10"
definition ProtectedKeyword :: TokenType where [TokenType_defs]: "ProtectedKeyword = 11"
definition DoKeyword :: TokenType where [TokenType_defs]: "DoKeyword = 12"
definition IsKeyword :: TokenType where [TokenType_defs]: "IsKeyword = 13"
definition AsKeyword :: TokenType where [TokenType_defs]: "AsKeyword = 14"
definition IfKeyword :: TokenType where [TokenType_defs]: "IfKeyword = 15"
definition ElseKeyword :: TokenType where [TokenType_defs]: "ElseKeyword = 16"
definition TryKeyword :: TokenType where [TokenType_defs]: "TryKeyword = 17"
definition CatchKeyword :: TokenType where [TokenType_defs]: "CatchKeyword = 18"
definition ThrowKeyword :: TokenType where [TokenType_defs]: "ThrowKeyword = 19"
definition FinallyKeyword :: TokenType where [TokenType_defs]: "FinallyKeyword = 20"
definition DeferKeyword :: TokenType where [TokenType_defs]: "DeferKeyword = 21"
definition DefKeyword :: TokenType where [TokenType_defs]: "DefKeyword = 22"
definition ValKeyword :: TokenType where [TokenType_defs]: "ValKeyword = 23"
definition VarKeyword :: TokenType where [TokenType_defs]: "VarKeyword = 24"
definition InKeyword :: TokenType where [TokenType_defs]: "InKeyword = 25"
definition MatchKeyword :: TokenType where [TokenType_defs]: "MatchKeyword = 26"
definition FromKeyword :: TokenType where [TokenType_defs]: "FromKeyword = 27"
definition ImportKeyword :: TokenType where [TokenType_defs]: "ImportKeyword = 28"
definition ExportKeyword :: TokenType where [TokenType_defs]: "ExportKeyword = 29"
definition ExternKeyword :: TokenType where [TokenType_defs]: "ExternKeyword = 30"
definition TypeKeyword :: TokenType where [TokenType_defs]: "TypeKeyword = 31"
definition EnumKeyword :: TokenType where [TokenType_defs]: "EnumKeyword = 32"
definition StructKeyword :: TokenType where [TokenType_defs]: "StructKeyword = 33"
definition ClassKeyword :: TokenType where [TokenType_defs]: "ClassKeyword = 34"
definition SuperKeyword :: TokenType where [TokenType_defs]: "SuperKeyword = 35"
definition ThisKeyword :: TokenType where [TokenType_defs]: "ThisKeyword = 36"
definition NullKeyword :: TokenType where [TokenType_defs]: "NullKeyword = 37"
definition VoidType :: TokenType where [TokenType_defs]: "VoidType = 38"
definition IntegerType :: TokenType where [TokenType_defs]: "IntegerType = 39"
definition UnsignedIntegerType :: TokenType where [TokenType_defs]: "UnsignedIntegerType = 40"
definition FloatType :: TokenType where [TokenType_defs]: "FloatType = 41"
definition BooleanType :: TokenType where [TokenType_defs]: "BooleanType = 42"
definition StringType :: TokenType where [TokenType_defs]: "StringType = 43"
definition Identifier :: TokenType where [TokenType_defs]: "Identifier = 44"
definition IntLiteral :: TokenType where [TokenType_defs]: "IntLiteral = 45"
definition FloatLiteral :: TokenType where [TokenType_defs]: "FloatLiteral = 46"
definition BinaryLiteral :: TokenType where [TokenType_defs]: "BinaryLiteral = 47"
definition OctalLiteral :: TokenType where [TokenType_defs]: "OctalLiteral = 48"
definition HexadecimalLiteral :: TokenType where [TokenType_defs]: "HexadecimalLiteral = 49"
definition StringLiteral :: TokenType where [TokenType_defs]: "StringLiteral = 50"
definition BoolLiteral :: TokenType where [TokenType_defs]: "BoolLiteral = 51"
definition EqualOperator :: TokenType where [TokenType_defs]: "EqualOperator = 52"
definition NotEqualOperator :: TokenType where [TokenType_defs]: "NotEqualOperator = 53"
definition PlusAssignOperator :: TokenType where [TokenType_defs]: "PlusAssignOperator = 54"
definition MinusAssignOperator :: TokenType where [TokenType_defs]: "MinusAssignOperator = 55"
definition TimesAssignOperator :: TokenType where [TokenType_defs]: "TimesAssignOperator = 56"
definition DivideAssignOperator :: TokenType where [TokenType_defs]: "DivideAssignOperator = 57"
definition ModuloAssignOperator :: TokenType where [TokenType_defs]: "ModuloAssignOperator = 58"
definition AndAssignOperator :: TokenType where [TokenType_defs]: "AndAssignOperator = 59"
definition OrAssignOperator :: TokenType where [TokenType_defs]: "OrAssignOperator = 60"
definition XorAssignOperator :: TokenType where [TokenType_defs]: "XorAssignOperator = 61"
definition CoalesceAssignOperator :: TokenType where [TokenType_defs]: "CoalesceAssignOperator = 62"
definition LeftShiftAssignOperator :: TokenType where [TokenType_defs]: "LeftShiftAssignOperator = 63"
definition UnsignedRightShiftAssignOperator :: TokenType where
  [TokenType_defs]: "UnsignedRightShiftAssignOperator = 64"
definition RightShiftAssignOperator :: TokenType where [TokenType_defs]: "RightShiftAssignOperator = 65"
definition ArrowOperator :: TokenType where [TokenType_defs]: "ArrowOperator = 66"
definition AssignOperator :: TokenType where [TokenType_defs]: "AssignOperator = 67"
definition PlusOperator :: TokenType where [TokenType_defs]: "PlusOperator = 68"
definition MinusOperator :: TokenType where [TokenType_defs]: "MinusOperator = 69"
definition TimesOperator :: TokenType where [TokenType_defs]: "TimesOperator = 70"
definition DivideOperator :: TokenType where [TokenType_defs]: "DivideOperator = 71"
definition ModuloOperator :: TokenType where [TokenType_defs]: "ModuloOperator = 72"
definition NotOperator :: TokenType where [TokenType_defs]: "NotOperator = 73"
definition CoalesceOperator :: TokenType where [TokenType_defs]: "CoalesceOperator = 74"
definition AndOperator :: TokenType where [TokenType_defs]: "AndOperator = 75"
definition OrOperator :: TokenType where [TokenType_defs]: "OrOperator = 76"
definition XorOperator :: TokenType where [TokenType_defs]: "XorOperator = 77"
definition LeftShiftOperator :: TokenType where [TokenType_defs]: "LeftShiftOperator = 78"
definition UnsignedRightShiftOperator :: TokenType where
  [TokenType_defs]: "UnsignedRightShiftOperator = 79"
definition RightShiftOperator :: TokenType where [TokenType_defs]: "RightShiftOperator = 80"
definition LessThanEqualOperator :: TokenType where [TokenType_defs]: "LessThanEqualOperator = 81"
definition GreaterThanEqualOperator :: TokenType where
  [TokenType_defs]: "GreaterThanEqualOperator = 82"
definition LessThanOperator :: TokenType where [TokenType_defs]: "LessThanOperator = 83"
definition GreaterThanOperator :: TokenType where [TokenType_defs]: "GreaterThanOperator = 84"
definition OptionalAccessOperator :: TokenType where [TokenType_defs]: "OptionalAccessOperator = 85"
definition OptionalOperator :: TokenType where [TokenType_defs]: "OptionalOperator = 86"
definition InclusiveRangeOperator :: TokenType where [TokenType_defs]: "InclusiveRangeOperator = 87"
definition ExclusiveRangeOperator :: TokenType where [TokenType_defs]: "ExclusiveRangeOperator = 88"
definition AccessOperator :: TokenType where [TokenType_defs]: "AccessOperator = 89"
definition OpenParenthesis :: TokenType where [TokenType_defs]: "OpenParenthesis = 90"
definition CloseParenthesis :: TokenType where [TokenType_defs]: "CloseParenthesis = 91"
definition OpenBracket :: TokenType where [TokenType_defs]: "OpenBracket = 92"
definition CloseBracket :: TokenType where [TokenType_defs]: "CloseBracket = 93"
definition OpenBrace :: TokenType where [TokenType_defs]: "OpenBrace = 94"
definition CloseBrace :: TokenType where [TokenType_defs]: "CloseBrace = 95"
definition SemicolonPunctuator :: TokenType where [TokenType_defs]: "SemicolonPunctuator = 96"
definition ColonPunctuator :: TokenType where [TokenType_defs]: "ColonPunctuator = 97"
definition CommaPunctuator :: TokenType where [TokenType_defs]: "CommaPunctuator = 98"
definition UnderscorePunctuator :: TokenType where [TokenType_defs]: "UnderscorePunctuator = 99"
definition ObjectPrototypeMember :: TokenType where [TokenType_defs]: "ObjectPrototypeMember = 100"

record Token =
  tok_type :: TokenType
  tok_text :: jsstring
  tok_start :: nat
  tok_stop :: nat

text \<open>The class \<open>LexerError\<close> of \<open>utils.ts\<close>; \<open>content\<close> is a string or \<open>null\<close>.\<close>

record LexerError =
  lex_message :: string
  lex_content :: "jsstring option"
  lex_start :: nat
  lex_stop :: nat

section \<open>The lexer\<close>

subsection \<open>The tables\<close>

text \<open>The table \<open>keywords\<close> of the lexer.\<close>

definition keywordsTable :: "(string \<times> TokenType) list" where
  "keywordsTable =
    [(''and'', AndKeyword), (''or'', OrKeyword), (''not'', NotKeyword), (''for'', ForKeyword),
     (''while'', WhileKeyword), (''continue'', ContinueKeyword), (''break'', BreakKeyword),
     (''return'', ReturnKeyword), (''macro'', MacroKeyword), (''public'', PublicKeyword),
     (''private'', PrivateKeyword), (''protected'', ProtectedKeyword), (''do'', DoKeyword),
     (''is'', IsKeyword), (''as'', AsKeyword), (''if'', IfKeyword), (''else'', ElseKeyword),
     (''try'', TryKeyword), (''catch'', CatchKeyword), (''throw'', ThrowKeyword),
     (''finally'', FinallyKeyword), (''defer'', DeferKeyword), (''def'', DefKeyword),
     (''val'', ValKeyword), (''var'', VarKeyword), (''in'', InKeyword),
     (''match'', MatchKeyword), (''from'', FromKeyword), (''import'', ImportKeyword),
     (''export'', ExportKeyword), (''extern'', ExternKeyword), (''type'', TypeKeyword),
     (''enum'', EnumKeyword), (''struct'', StructKeyword), (''class'', ClassKeyword),
     (''void'', VoidType), (''int'', IntegerType), (''i8'', IntegerType),
     (''i16'', IntegerType), (''i32'', IntegerType), (''i64'', IntegerType),
     (''uint'', UnsignedIntegerType), (''u8'', UnsignedIntegerType),
     (''u16'', UnsignedIntegerType), (''u32'', UnsignedIntegerType),
     (''u64'', UnsignedIntegerType), (''float'', FloatType), (''f32'', FloatType),
     (''f64'', FloatType), (''bool'', BooleanType), (''string'', StringType),
     (''true'', BoolLiteral), (''false'', BoolLiteral), (''super'', SuperKeyword),
     (''this'', ThisKeyword), (''null'', NullKeyword)]"

text \<open>
  The lexer tests \<open>match[0] in keywords\<close>. The operator \<open>in\<close> also finds the members that
  the object literal inherits from \<open>Object.prototype\<close>; these are the inherited names
  that the identifier pattern can produce.
\<close>

definition objectPrototypeNames :: "string list" where
  "objectPrototypeNames =
    [''constructor'', ''hasOwnProperty'', ''isPrototypeOf'', ''propertyIsEnumerable'',
     ''toLocaleString'', ''toString'', ''valueOf'']"

definition inKeywords :: "jsstring \<Rightarrow> bool" where
  "inKeywords name =
     (name \<in> set (map (js \<circ> fst) keywordsTable) \<or> name \<in> set (map js objectPrototypeNames))"

definition keywordsLookup :: "jsstring \<Rightarrow> TokenType" where
  "keywordsLookup name =
     (case map_of (map (\<lambda>(k, v). (js k, v)) keywordsTable) name of
        Some t \<Rightarrow> t
      | None \<Rightarrow> ObjectPrototypeMember)"

text \<open>\<open>Object.entries(operators)\<close>: the entries in insertion order.\<close>

definition operatorEntries :: "(string \<times> TokenType) list" where
  "operatorEntries =
    [(''=='', EqualOperator), (''!='', NotEqualOperator), (''+='', PlusAssignOperator),
     (''-='', MinusAssignOperator), (''*='', TimesAssignOperator),
     (''/='', DivideAssignOperator), (''%='', ModuloAssignOperator),
     (''&='', AndAssignOperator), (''|='', OrAssignOperator), (''^='', XorAssignOperator),
     (''?='', CoalesceAssignOperator), (''<<='', LeftShiftAssignOperator),
     (''>>>='', UnsignedRightShiftAssignOperator), (''>>='', RightShiftAssignOperator),
     (''=>'', ArrowOperator), (''='', AssignOperator), (''+'', PlusOperator),
     (''-'', MinusOperator), (''*'', TimesOperator), (''/'', DivideOperator),
     (''%'', ModuloOperator), (''~'', NotOperator), (''?:'', CoalesceOperator),
     (''&'', AndOperator), (''|'', OrOperator), (''^'', XorOperator),
     (''<<'', LeftShiftOperator), (''>>>'', UnsignedRightShiftOperator),
     (''>>'', RightShiftOperator), (''<='', LessThanEqualOperator),
     (''>='', GreaterThanEqualOperator), (''<'', LessThanOperator),
     (''>'', GreaterThanOperator), (''?.'', OptionalAccessOperator),
     (''?'', OptionalOperator), (''...'', InclusiveRangeOperator),
     (''..'', ExclusiveRangeOperator), (''.'', AccessOperator), (''('', OpenParenthesis),
     ('')'', CloseParenthesis), (''['', OpenBracket), ('']'', CloseBracket),
     (''{'', OpenBrace), (''}'', CloseBrace), ('';'', SemicolonPunctuator),
     ('':'', ColonPunctuator), ('','', CommaPunctuator), (''_'', UnderscorePunctuator)]"

definition findOperator :: "jsstring \<Rightarrow> (jsstring \<times> TokenType) option" where
  "findOperator text =
     List.find (\<lambda>entry. startsWith text (fst entry)) (map (\<lambda>(k, v). (js k, v)) operatorEntries)"

subsection \<open>The regular expressions\<close>

text \<open>
  Each pattern is anchored at the start of the remaining text. A matcher returns
  \<open>match[0]\<close>, the matched prefix, or \<open>None\<close> for \<open>null\<close>.
\<close>

definition isDigit :: "nat \<Rightarrow> bool" where
  "isDigit c = (48 \<le> c \<and> c \<le> 57)"

definition isLetter :: "nat \<Rightarrow> bool" where
  "isLetter c = ((65 \<le> c \<and> c \<le> 90) \<or> (97 \<le> c \<and> c \<le> 122))"

definition isAlnum :: "nat \<Rightarrow> bool" where
  "isAlnum c = (isLetter c \<or> isDigit c)"

definition isHexDigit :: "nat \<Rightarrow> bool" where
  "isHexDigit c = (isDigit c \<or> (97 \<le> c \<and> c \<le> 102) \<or> (65 \<le> c \<and> c \<le> 70))"

definition isUpperHexDigit :: "nat \<Rightarrow> bool" where
  "isUpperHexDigit c = (isDigit c \<or> (65 \<le> c \<and> c \<le> 70))"

definition isOctalDigit :: "nat \<Rightarrow> bool" where
  "isOctalDigit c = (48 \<le> c \<and> c \<le> 55)"

definition isBinaryDigit :: "nat \<Rightarrow> bool" where
  "isBinaryDigit c = (48 \<le> c \<and> c \<le> 49)"

text \<open>\<open>/^[\r\n\f\v\t ]/\<close>\<close>

definition matchWhitespace :: "jsstring \<Rightarrow> jsstring option" where
  "matchWhitespace text =
     (case text of
        [] \<Rightarrow> None
      | c # _ \<Rightarrow> if c \<in> {13, 10, 12, 11, 9, 32} then Some [c] else None)"

text \<open>\<open>/^\/\/.*/\<close>: the dot stops at a line terminator.\<close>

definition isLineTerminator :: "nat \<Rightarrow> bool" where
  "isLineTerminator c = (c \<in> {10, 13, 8232, 8233})"

definition matchLineComment :: "jsstring \<Rightarrow> jsstring option" where
  "matchLineComment text =
     (if startsWith text [47, 47]
      then Some ([47, 47] @ takeWhile (\<lambda>c. \<not> isLineTerminator c) (drop 2 text))
      else None)"

text \<open>\<open>/^\/\*[^]*?\*\//\<close>: up to the first \<open>*/\<close> after the opening.\<close>

fun untilClose :: "jsstring \<Rightarrow> jsstring option" where
  "untilClose [] = None"
| "untilClose (c # cs) =
     (if c = 42 \<and> startsWith cs [47] then Some [42, 47]
      else map_option ((#) c) (untilClose cs))"

definition matchBlockComment :: "jsstring \<Rightarrow> jsstring option" where
  "matchBlockComment text =
     (if startsWith text [47, 42]
      then map_option ((@) [47, 42]) (untilClose (drop 2 text))
      else None)"

text \<open>\<open>/^[a-zA-Z](?:_?[a-zA-Z0-9]+)*/\<close>\<close>

fun identifierTail :: "jsstring \<Rightarrow> jsstring" where
  "identifierTail [] = []"
| "identifierTail (c # cs) =
     (if isAlnum c then c # identifierTail cs
      else if c = 95 \<and> cs \<noteq> [] \<and> isAlnum (hd cs) then c # identifierTail cs
      else [])"

definition matchIdentifier :: "jsstring \<Rightarrow> jsstring option" where
  "matchIdentifier text =
     (case text of
        [] \<Rightarrow> None
      | c # cs \<Rightarrow> if isLetter c then Some (c # identifierTail cs) else None)"

text \<open>\<open>/^0[xX][0-9a-fA-F]+/\<close>, \<open>/^0[oO][0-7]+/\<close>, \<open>/^0[bB][0-1]+/\<close>\<close>

definition matchPrefixed :: "nat set \<Rightarrow> (nat \<Rightarrow> bool) \<Rightarrow> jsstring \<Rightarrow> jsstring option" where
  "matchPrefixed letters digit text =
     (case text of
        z # x # rest \<Rightarrow>
          if z = 48 \<and> x \<in> letters \<and> takeWhile digit rest \<noteq> []
          then Some (z # x # takeWhile digit rest)
          else None
      | _ \<Rightarrow> None)"

definition matchHexadecimal :: "jsstring \<Rightarrow> jsstring option" where
  "matchHexadecimal = matchPrefixed {120, 88} isHexDigit"

definition matchOctal :: "jsstring \<Rightarrow> jsstring option" where
  "matchOctal = matchPrefixed {111, 79} isOctalDigit"

definition matchBinary :: "jsstring \<Rightarrow> jsstring option" where
  "matchBinary = matchPrefixed {98, 66} isBinaryDigit"

text \<open>The optional exponent \<open>(?:[eE][+\-]?[0-9]+)?\<close>: empty when it does not match.\<close>

definition matchExponent :: "jsstring \<Rightarrow> jsstring" where
  "matchExponent text =
     (case text of
        [] \<Rightarrow> []
      | e # rest \<Rightarrow>
          if e = 101 \<or> e = 69 then
            (let sign = (if startsWith rest [43] \<or> startsWith rest [45] then take 1 rest else []);
                 digits = takeWhile isDigit (drop (length sign) rest)
             in if digits = [] then [] else e # sign @ digits)
          else [])"

text \<open>\<open>/^[0-9]+\.[0-9]+(?:[eE][+\-]?[0-9]+)?/\<close>\<close>

definition matchFloat :: "jsstring \<Rightarrow> jsstring option" where
  "matchFloat text =
     (let whole = takeWhile isDigit text; rest = dropWhile isDigit text in
      if whole \<noteq> [] \<and> startsWith rest [46] \<and> takeWhile isDigit (drop 1 rest) \<noteq> []
      then Some (whole @ [46] @ takeWhile isDigit (drop 1 rest)
                 @ matchExponent (dropWhile isDigit (drop 1 rest)))
      else None)"

text \<open>\<open>/^[0-9]+(?:[eE][+\-]?[0-9]+)?/\<close>\<close>

definition matchInt :: "jsstring \<Rightarrow> jsstring option" where
  "matchInt text =
     (let whole = takeWhile isDigit text in
      if whole \<noteq> [] then Some (whole @ matchExponent (dropWhile isDigit text)) else None)"

subsection \<open>\<open>parseInt(hex, 16)\<close> and \<open>String.fromCharCode\<close>\<close>

text \<open>
  \<open>parseInt\<close> skips leading white space, reads a sign and an optional \<open>0x\<close>, and then the
  longest run of digits of the radix, in either case; with no digit the result is
  \<open>NaN\<close>, here \<open>None\<close>.
\<close>

definition isStrWhiteSpace :: "nat \<Rightarrow> bool" where
  "isStrWhiteSpace c =
     (c \<in> {9, 10, 11, 12, 13, 32, 160, 5760, 8232, 8233, 8239, 8287, 12288, 65279}
      \<or> (8192 \<le> c \<and> c \<le> 8202))"

definition hexDigitValue :: "nat \<Rightarrow> nat" where
  "hexDigitValue c =
     (if isDigit c then c - 48 else if 97 \<le> c \<and> c \<le> 102 then c - 87 else c - 55)"

definition hexValue :: "jsstring \<Rightarrow> nat" where
  "hexValue ds = foldl (\<lambda>acc c. acc * 16 + hexDigitValue c) 0 ds"

definition parseInt16 :: "jsstring \<Rightarrow> int option" where
  "parseInt16 s =
     (let s1 = dropWhile isStrWhiteSpace s;
          negative = startsWith s1 [45];
          s2 = (if startsWith s1 [45] \<or> startsWith s1 [43] then drop 1 s1 else s1);
          s3 = (if startsWith s2 [48, 120] \<or> startsWith s2 [48, 88] then drop 2 s2 else s2);
          digits = takeWhile isHexDigit s3
      in if digits = [] then None
         else Some (if negative then - int (hexValue digits) else int (hexValue digits)))"

text \<open>
  A JavaScript number is a double: an integer of more than 53 significant bits is rounded
  to the nearest double, ties to even. Values that overflow the double range become
  infinities, which compare and convert below like the rounded integer (above every
  bound; zero modulo \<open>2 ^ 16\<close>), so the rounded integer stands for them too.
\<close>

fun bitLength :: "nat \<Rightarrow> nat" where
  "bitLength n = (if n = 0 then 0 else Suc (bitLength (n div 2)))"

declare bitLength.simps [simp del]

definition toNumber :: "int \<Rightarrow> int" where
  "toNumber n =
     (let m = nat \<bar>n\<bar>; k = bitLength m in
      if k \<le> 53 then n
      else
        (let e = k - 53; q = m div 2 ^ e; r = m mod 2 ^ e; h = 2 ^ (e - 1);
             q' = (if h < r \<or> (r = h \<and> odd q) then q + 1 else q)
         in sgn n * int (q' * 2 ^ e)))"

text \<open>\<open>String.fromCharCode(number)\<close>: \<open>ToUint16\<close> of the number; \<open>NaN\<close> gives 0.\<close>

definition fromCharCode :: "int option \<Rightarrow> nat" where
  "fromCharCode number =
     (case number of None \<Rightarrow> 0 | Some n \<Rightarrow> nat (toNumber n mod 65536))"

text \<open>\<open>number > 0x10ffff\<close>; a comparison with \<open>NaN\<close> is false.\<close>

definition greaterThan10ffff :: "int option \<Rightarrow> bool" where
  "greaterThan10ffff number =
     (case number of None \<Rightarrow> False | Some n \<Rightarrow> 1114111 < toNumber n)"

subsection \<open>The class \<open>Lexer\<close>\<close>

record Lexer =
  lexer_source :: jsstring
  lexer_text :: jsstring

definition newLexer :: "jsstring \<Rightarrow> Lexer" where
  "newLexer src = \<lparr>lexer_source = src, lexer_text = src\<rparr>"

definition index :: "Lexer \<Rightarrow> nat" where
  "index L = length (lexer_source L) - length (lexer_text L)"

definition eat :: "nat \<Rightarrow> Lexer \<Rightarrow> Lexer" where
  "eat chars L = L\<lparr>lexer_text := drop chars (lexer_text L)\<rparr>"

definition lexerError :: "string \<Rightarrow> jsstring option \<Rightarrow> nat \<Rightarrow> nat \<Rightarrow> LexerError" where
  "lexerError m c a b = \<lparr>lex_message = m, lex_content = c, lex_start = a, lex_stop = b\<rparr>"

definition token :: "TokenType \<Rightarrow> jsstring \<Rightarrow> nat \<Rightarrow> nat \<Rightarrow> Token" where
  "token ty tx a b = \<lparr>tok_type = ty, tok_text = tx, tok_start = a, tok_stop = b\<rparr>"

text \<open>
  The string branch of \<open>consume\<close> runs the loop \<open>while (this.text.length > 0)\<close>.
  \<open>stringStep\<close> is one pass through its body, for the first code unit \<open>char\<close> of the
  text of \<open>L\<close>: it goes round again (\<open>Continue\<close>), leaves the loop with \<open>closed = true\<close>
  (\<open>Break\<close>), or returns from \<open>consume\<close> with an error (\<open>Return\<close>), each with the new
  value of \<open>string\<close> and the lexer as it is then. Successive calls of \<open>eat\<close> are written as one: \<open>eat 2 L\<close> is the
  lexer after \<open>eat(1)\<close> for the backslash and \<open>eat(1)\<close> for the escape character.
\<close>

datatype ('a, 'r) flow = Continue 'a | Break 'a | Return 'r

definition stringStep ::
  "nat \<Rightarrow> nat \<Rightarrow> Lexer \<Rightarrow> jsstring \<Rightarrow> (jsstring, LexerError) flow \<times> Lexer" where
  "stringStep start char L string =
     (if char = 92 then
        (case lexer_text (eat 1 L) of
           [] \<Rightarrow> (Return (lexerError ''Unexpected end of escape'' None start (index (eat 1 L))),
                  eat 1 L)
         | escape # _ \<Rightarrow>
            if escape = 110 then (Continue (string @ [10]), eat 2 L)
            else if escape = 114 then (Continue (string @ [13]), eat 2 L)
            else if escape = 110 then (Continue (string @ [10]), eat 2 L)
            else if escape = 102 then (Continue (string @ [12]), eat 2 L)
            else if escape = 118 then (Continue (string @ [11]), eat 2 L)
            else if escape = 116 then (Continue (string @ [9]), eat 2 L)
            else if escape = 98 then (Continue (string @ [8]), eat 2 L)
            else if escape = 48 then (Continue (string @ [0]), eat 2 L)
            else if escape = 120 then
              (let hex = take 2 (lexer_text (eat 2 L)) in
               if \<not> (length hex = 2 \<and> list_all isUpperHexDigit hex) then
                 (Return (lexerError ''Invalid or lowercase hexadecimal escape sequence'' None
                            start (index (eat 2 L))), eat 2 L)
               else (Continue (string @ [fromCharCode (parseInt16 hex)]), eat 4 L))
            else if escape = 117 then
              (if startsWith (lexer_text (eat 2 L)) [123] then
                 (let hex = takeWhile (\<lambda>c. c \<noteq> 125) (lexer_text (eat 3 L))
                            @ take 1 (dropWhile (\<lambda>c. c \<noteq> 125) (lexer_text (eat 3 L))) in
                  if \<not> (hex \<noteq> [] \<and> last hex = 125) then
                    (Return (lexerError ''Invalid or lowercase unicode escape sequence'' None
                               start (index (eat 3 L))), eat 3 L)
                  else if greaterThan10ffff (parseInt16 (butlast hex)) then
                    (Return (lexerError ''Out of range unicode escape sequence'' None
                               start (index (eat 3 L))), eat 3 L)
                  else (Continue (string @ [fromCharCode (parseInt16 (butlast hex))]),
                        eat (3 + (length (butlast hex) + 1)) L))
               else
                 (let hex = take 4 (lexer_text (eat 2 L)) in
                  if \<not> (length hex = 4 \<and> list_all isUpperHexDigit hex) then
                    (Return (lexerError ''Invalid or lowercase unicode escape sequence'' None
                               start (index (eat 2 L))), eat 2 L)
                  else (Continue (string @ [fromCharCode (parseInt16 hex)]), eat 6 L)))
            else (Continue (string @ [escape]), eat 2 L))
      else if char = hd (string @ [char]) then (Break (string @ [char]), eat 1 L)
      else (Continue (string @ [char]), eat 1 L))"

lemma stringStep_shorter:
  "stringStep start char L string = (r, L') \<Longrightarrow> lexer_text L \<noteq> [] \<Longrightarrow>
     length (lexer_text L') < length (lexer_text L) \<and> lexer_source L' = lexer_source L"
  by (auto simp: stringStep_def eat_def Let_def split: if_splits list.splits)

text \<open>
  The loop itself: the error returned from inside it, or the values of \<open>closed\<close> and
  \<open>string\<close> and the lexer when it ends.
\<close>

function stringLoop ::
  "nat \<Rightarrow> Lexer \<Rightarrow> jsstring \<Rightarrow> (LexerError \<times> Lexer) + (bool \<times> jsstring \<times> Lexer)"
where
  "stringLoop start L string =
     (case lexer_text L of
        [] \<Rightarrow> Inr (False, string, L)
      | char # _ \<Rightarrow>
          (case stringStep start char L string of
             (Return e, L') \<Rightarrow> Inl (e, L')
           | (Break string', L') \<Rightarrow> Inr (True, string', L')
           | (Continue string', L') \<Rightarrow> stringLoop start L' string'))"
  by pat_completeness auto
termination
proof (relation "measure (\<lambda>(start, L, string). length (lexer_text L))")
  show "wf (measure (\<lambda>(start, L, string). length (lexer_text L)))"
    by simp
next
  fix start :: nat and L :: Lexer and string :: jsstring and char rest x L' string'
  assume "lexer_text L = char # rest" "(x, L') = stringStep start char L string"
  then show "((start, L', string'), (start, L, string))
      \<in> measure (\<lambda>(start, L, string). length (lexer_text L))"
    using stringStep_shorter [of start char L string x L'] by simp
qed

declare stringLoop.simps [simp del]

text \<open>
  \<open>Lexer.consume\<close>: a token, an error, or \<open>undefined\<close> after white space or a comment
  (the parser has a method \<open>consume\<close> of its own, below).
\<close>

datatype consumed = Produced Token | Failed LexerError | Skipped

definition lexerConsume :: "Lexer \<Rightarrow> consumed \<times> Lexer" where
  "lexerConsume L =
     (let start = index L in
      if length (lexer_source L) \<le> index L then
        (Failed (lexerError ''Unexpected end of file'' (Some []) start start), L)
      else
       (case (case matchWhitespace (lexer_text L) of
                Some m \<Rightarrow> Some m
              | None \<Rightarrow> (case matchLineComment (lexer_text L) of
                           Some m \<Rightarrow> Some m
                         | None \<Rightarrow> matchBlockComment (lexer_text L))) of
          Some m \<Rightarrow> (Skipped, eat (length m) L)
        | None \<Rightarrow>
       (case matchIdentifier (lexer_text L) of
          Some m \<Rightarrow>
            (if inKeywords m
             then (Produced (token (keywordsLookup m) m start (index (eat (length m) L))),
                   eat (length m) L)
             else (Produced (token Identifier m start (index (eat (length m) L))),
                   eat (length m) L))
        | None \<Rightarrow>
       (case matchHexadecimal (lexer_text L) of
          Some m \<Rightarrow> (Produced (token HexadecimalLiteral m start (index (eat (length m) L))),
                     eat (length m) L)
        | None \<Rightarrow>
       (case matchOctal (lexer_text L) of
          Some m \<Rightarrow> (Produced (token OctalLiteral m start (index (eat (length m) L))),
                     eat (length m) L)
        | None \<Rightarrow>
       (case matchBinary (lexer_text L) of
          Some m \<Rightarrow> (Produced (token BinaryLiteral m start (index (eat (length m) L))),
                     eat (length m) L)
        | None \<Rightarrow>
       (case matchFloat (lexer_text L) of
          Some m \<Rightarrow> (Produced (token FloatLiteral m start (index (eat (length m) L))),
                     eat (length m) L)
        | None \<Rightarrow>
       (case matchInt (lexer_text L) of
          Some m \<Rightarrow> (Produced (token IntLiteral m start (index (eat (length m) L))),
                     eat (length m) L)
        | None \<Rightarrow>
          if startsWith (lexer_text L) [39] \<or> startsWith (lexer_text L) [34] then
            (case stringLoop start (eat 1 L) (take 1 (lexer_text L)) of
               Inl (e, L') \<Rightarrow> (Failed e, L')
             | Inr (closed, string, L') \<Rightarrow>
                 if \<not> closed then
                   (Failed (lexerError ''Unterminated string literal'' None start (index L')), L')
                 else
                   (Produced (token StringLiteral (butlast (drop 1 string)) start (index L')), L'))
          else
            (case findOperator (lexer_text L) of
               Some m \<Rightarrow>
                 (Produced (token (snd m) (fst m) start (index (eat (length (fst m)) L))),
                  eat (length (fst m)) L)
             | None \<Rightarrow>
                 (Failed (lexerError ''Unexpected character'' (Some (take 1 (lexer_text L)))
                            start (index L + 1)), L))))))))))"


text \<open>Every pattern matches a non-empty prefix of the text.\<close>

lemma startsWith_append: "startsWith (m @ t) m"
  by (simp add: startsWith_def)

lemma startsWith_takeWhile: "startsWith t (takeWhile P t)"
  by (metis startsWith_append takeWhile_dropWhile_id)

lemma startsWith_Cons: "startsWith (c # t) (c # m) = startsWith t m"
  by (simp add: startsWith_def)

lemma startsWith_Nil: "startsWith t []"
  by (simp add: startsWith_def)

lemma startsWith_prepend: "startsWith t m \<Longrightarrow> startsWith (p @ t) (p @ m)"
  by (simp add: startsWith_def)

lemma startsWith_drop: "startsWith t p \<Longrightarrow> startsWith (drop (length p) t) m \<Longrightarrow> startsWith t (p @ m)"
  by (metis append_take_drop_id startsWith_def startsWith_prepend)

lemma untilClose_prefix: "untilClose t = Some m \<Longrightarrow> m \<noteq> [] \<and> startsWith t m"
proof (induction t arbitrary: m)
  case Nil
  then show ?case by simp
next
  case (Cons c cs)
  then show ?case
    by (cases cs) (auto simp: startsWith_def split: if_splits)
qed

lemma identifierTail_prefix: "startsWith t (identifierTail t)"
  by (induction t) (auto simp: startsWith_Cons startsWith_Nil)

lemma matchExponent_prefix: "startsWith t (matchExponent t)"
proof (cases t)
  case Nil
  then show ?thesis by (simp add: matchExponent_def startsWith_Nil)
next
  case (Cons e rest)
  have a: "startsWith rest (takeWhile isDigit rest)"
    by (rule startsWith_takeWhile)
  have b: "\<And>s r. startsWith (s # r) (s # takeWhile isDigit r)"
    by (simp add: startsWith_Cons startsWith_takeWhile)
  show ?thesis
    using Cons a b
    by (cases rest) (auto simp: matchExponent_def Let_def startsWith_Cons startsWith_Nil)
qed

lemma matchWhitespace_prefix: "matchWhitespace t = Some m \<Longrightarrow> m \<noteq> [] \<and> startsWith t m"
  by (auto simp: matchWhitespace_def startsWith_def split: list.splits if_splits)

lemma matchLineComment_prefix: "matchLineComment t = Some m \<Longrightarrow> m \<noteq> [] \<and> startsWith t m"
proof -
  assume a: "matchLineComment t = Some m"
  then have s: "startsWith t [47, 47]"
    and m: "m = [47, 47] @ takeWhile (\<lambda>c. \<not> isLineTerminator c) (drop 2 t)"
    by (auto simp: matchLineComment_def split: if_splits)
  have d: "drop (length [47, 47 :: nat]) t = drop 2 t"
    by (simp add: numeral_2_eq_2)
  have "startsWith t ([47, 47] @ takeWhile (\<lambda>c. \<not> isLineTerminator c) (drop 2 t))"
    by (rule startsWith_drop [OF s]) (simp only: d startsWith_takeWhile)
  with m show ?thesis by simp
qed

lemma matchBlockComment_prefix: "matchBlockComment t = Some m \<Longrightarrow> m \<noteq> [] \<and> startsWith t m"
proof -
  assume a: "matchBlockComment t = Some m"
  then obtain u where s: "startsWith t [47, 42]" and u: "untilClose (drop 2 t) = Some u"
    and m: "m = [47, 42] @ u"
    by (auto simp: matchBlockComment_def split: if_splits)
  have d: "drop (length [47, 42 :: nat]) t = drop 2 t"
    by (simp add: numeral_2_eq_2)
  have "startsWith t ([47, 42] @ u)"
    by (rule startsWith_drop [OF s]) (use untilClose_prefix [OF u] in \<open>simp only: d\<close>)
  with m show ?thesis by simp
qed

lemma matchIdentifier_prefix: "matchIdentifier t = Some m \<Longrightarrow> m \<noteq> [] \<and> startsWith t m"
  by (auto simp: matchIdentifier_def startsWith_Cons identifierTail_prefix
      split: list.splits if_splits)

lemma matchPrefixed_prefix:
  "matchPrefixed letters digit t = Some m \<Longrightarrow> m \<noteq> [] \<and> startsWith t m"
  by (auto simp: matchPrefixed_def startsWith_Cons startsWith_takeWhile
      split: list.splits if_splits)

lemma matchFloat_prefix: "matchFloat t = Some m \<Longrightarrow> m \<noteq> [] \<and> startsWith t m"
proof -
  let ?w = "takeWhile isDigit t" and ?r = "dropWhile isDigit t"
  let ?f = "takeWhile isDigit (drop 1 ?r)" and ?r2 = "dropWhile isDigit (drop 1 ?r)"
  assume a: "matchFloat t = Some m"
  then have w: "?w \<noteq> []" and d: "startsWith ?r [46]"
    and m: "m = ?w @ [46] @ ?f @ matchExponent ?r2"
    by (auto simp: matchFloat_def Let_def split: if_splits)
  from d have r: "?r = [46] @ drop 1 ?r"
    by (cases ?r) (auto simp: startsWith_def)
  have "drop 1 ?r = ?f @ ?r2" by simp
  then have "startsWith (drop 1 ?r) (?f @ matchExponent ?r2)"
    by (metis matchExponent_prefix startsWith_prepend)
  then have "startsWith ([46] @ drop 1 ?r) ([46] @ ?f @ matchExponent ?r2)"
    by (rule startsWith_prepend)
  with r have "startsWith ?r ([46] @ ?f @ matchExponent ?r2)" by simp
  then have "startsWith (?w @ ?r) (?w @ [46] @ ?f @ matchExponent ?r2)"
    by (rule startsWith_prepend)
  with m w show ?thesis by simp
qed

lemma matchInt_prefix: "matchInt t = Some m \<Longrightarrow> m \<noteq> [] \<and> startsWith t m"
proof -
  let ?w = "takeWhile isDigit t" and ?r = "dropWhile isDigit t"
  assume a: "matchInt t = Some m"
  then have w: "?w \<noteq> []" and m: "m = ?w @ matchExponent ?r"
    by (auto simp: matchInt_def Let_def split: if_splits)
  have "startsWith (?w @ ?r) (?w @ matchExponent ?r)"
    by (rule startsWith_prepend) (rule matchExponent_prefix)
  with m w show ?thesis by simp
qed

lemma find_SomeD: "List.find P xs = Some x \<Longrightarrow> x \<in> set xs \<and> P x"
  by (induction xs) (auto split: if_splits)

lemma findOperator_prefix:
  "findOperator t = Some m \<Longrightarrow> fst m \<noteq> [] \<and> startsWith t (fst m)"
proof -
  assume "findOperator t = Some m"
  then have "m \<in> set (map (\<lambda>(k, v). (js k, v)) operatorEntries)" and "startsWith t (fst m)"
    by (auto simp: findOperator_def dest: find_SomeD)
  moreover have "\<forall>e \<in> set (map (\<lambda>(k, v). (js k, v)) operatorEntries). fst e \<noteq> []"
    by (simp add: operatorEntries_def js_def)
  ultimately show ?thesis by blast
qed

lemma eat_prefix_shorter:
  "m \<noteq> [] \<Longrightarrow> startsWith (lexer_text L) m \<Longrightarrow>
     length (lexer_text (eat (length m) L)) < length (lexer_text L)"
  by (cases "lexer_text L") (auto simp: eat_def startsWith_def)

lemma stringLoop_shorter:
  "stringLoop start L string = Inr (closed, string', L') \<Longrightarrow>
     length (lexer_text L') \<le> length (lexer_text L) \<and> lexer_source L' = lexer_source L"
proof (induction start L string rule: stringLoop.induct)
  case (1 start L string)
  show ?case
  proof (cases "lexer_text L")
    case Nil
    with "1.prems" show ?thesis
      by (simp add: stringLoop.simps)
  next
    case (Cons char rest)
    obtain r L1 where step: "stringStep start char L string = (r, L1)"
      by (cases "stringStep start char L string")
    have sh: "length (lexer_text L1) < length (lexer_text L) \<and> lexer_source L1 = lexer_source L"
      using stringStep_shorter [OF step] Cons by simp
    show ?thesis
    proof (cases r)
      case (Return e)
      with "1.prems" Cons step show ?thesis
        by (simp add: stringLoop.simps)
    next
      case (Break s)
      with "1.prems" Cons step sh show ?thesis
        by (simp add: stringLoop.simps)
    next
      case (Continue s)
      with "1.prems" Cons step have "stringLoop start L1 s = Inr (closed, string', L')"
        by (simp add: stringLoop.simps)
      with "1.IH" [OF Cons step [symmetric] Continue] sh show ?thesis
        by simp
    qed
  qed
qed

lemma consume_shorter:
  assumes "lexerConsume L = (r, L')" and "index L < length (lexer_source L)"
    and "\<forall>e. r \<noteq> Failed e"
  shows "length (lexer_text L') < length (lexer_text L)"
proof -
  have ne: "lexer_text L \<noteq> []"
    using assms(2) by (auto simp: index_def)
  have e1: "length (lexer_text (eat 1 L)) < length (lexer_text L)"
    using ne by (cases "lexer_text L") (auto simp: eat_def)
  show ?thesis
    using assms ne e1
    by (auto simp: lexerConsume_def Let_def matchHexadecimal_def matchOctal_def matchBinary_def
        split: option.splits if_splits sum.splits prod.splits
        dest!: matchWhitespace_prefix matchLineComment_prefix matchBlockComment_prefix
          matchIdentifier_prefix matchPrefixed_prefix matchFloat_prefix matchInt_prefix
          findOperator_prefix stringLoop_shorter
        intro: eat_prefix_shorter)
qed

text \<open>\<open>Lexer.tokens\<close> and its loop.\<close>

function tokensLoop :: "Lexer \<Rightarrow> Token list \<Rightarrow> LexerError + Token list" where
  "tokensLoop L tokens =
     (if index L < length (lexer_source L) then
        (case lexerConsume L of
           (Failed e, L') \<Rightarrow> Inl e
         | (Produced t, L') \<Rightarrow> tokensLoop L' (tokens @ [t])
         | (Skipped, L') \<Rightarrow> tokensLoop L' tokens)
      else Inr tokens)"
  by pat_completeness auto
termination
proof (relation "measure (\<lambda>(L, tokens). length (lexer_text L))")
  show "wf (measure (\<lambda>(L, tokens). length (lexer_text L)))"
    by simp
next
  fix L :: Lexer and tokens :: "Token list" and x L' t
  assume "index L < length (lexer_source L)" "(x, L') = lexerConsume L" "x = Produced t"
  then show "((L', tokens @ [t]), (L, tokens)) \<in> measure (\<lambda>(L, tokens). length (lexer_text L))"
    using consume_shorter [of L x L'] by simp
next
  fix L :: Lexer and tokens :: "Token list" and x L'
  assume "index L < length (lexer_source L)" "(x, L') = lexerConsume L" "x = Skipped"
  then show "((L', tokens), (L, tokens)) \<in> measure (\<lambda>(L, tokens). length (lexer_text L))"
    using consume_shorter [of L x L'] by simp
qed

declare tokensLoop.simps [simp del]

definition lexerTokens :: "Lexer \<Rightarrow> LexerError + Token list" where
  "lexerTokens L = tokensLoop L []"

text \<open>The interface \<open>lex(source)\<close> of the specification: \<open>new Lexer(source).tokens()\<close>.\<close>

definition lexSource :: "jsstring \<Rightarrow> LexerError + Token list" where
  "lexSource src = lexerTokens (newLexer src)"

text \<open>The definitions that evaluate the lexer on a given source.\<close>

lemmas lexer_eval =
  lexSource_def lexerTokens_def newLexer_def tokensLoop.simps lexerConsume_def stringLoop.simps
  stringStep_def index_def eat_def js_def token_def lexerError_def startsWith_def
  matchWhitespace_def matchLineComment_def matchBlockComment_def matchIdentifier_def
  matchHexadecimal_def matchOctal_def matchBinary_def matchPrefixed_def matchFloat_def
  matchInt_def matchExponent_def findOperator_def operatorEntries_def isLetter_def isDigit_def
  isAlnum_def isUpperHexDigit_def isHexDigit_def isOctalDigit_def isBinaryDigit_def
  isLineTerminator_def parseInt16_def fromCharCode_def greaterThan10ffff_def toNumber_def
  bitLength.simps hexValue_def hexDigitValue_def isStrWhiteSpace_def inKeywords_def
  keywordsTable_def keywordsLookup_def objectPrototypeNames_def TokenType_defs Let_def

section \<open>Token spans\<close>

text \<open>
  What the string loop has eaten when it ends with \<open>closed = true\<close>: some code units and
  then the quote that opened the literal; and \<open>string\<close> has grown by the decoded text and
  that quote.
\<close>

lemma drop_diff: "drop (length t - (length t - k)) t = drop k t"
  by (cases "k \<le> length t") auto

lemma stringStep_suffix:
  "stringStep start char L string = (r, L') \<Longrightarrow>
     lexer_text L' = drop (length (lexer_text L) - length (lexer_text L')) (lexer_text L)"
  by (auto simp: stringStep_def Let_def eat_def drop_diff split: if_splits list.splits)

lemma stringStep_string:
  "stringStep start char L string = (r, L') \<Longrightarrow>
     (case r of
        Return e \<Rightarrow> True
      | Break s \<Rightarrow> char = hd (string @ [char]) \<and> s = string @ [char] \<and> L' = eat 1 L
      | Continue s \<Rightarrow> \<exists>d. s = string @ d)"
  by (auto simp: stringStep_def Let_def split: if_splits list.splits)

lemma stringLoop_consumed:
  "stringLoop start L string = Inr (True, string', L') \<Longrightarrow> string \<noteq> [] \<Longrightarrow>
     \<exists>cs d. lexer_text L = cs @ [hd string] @ lexer_text L'
        \<and> string' = string @ d @ [hd string] \<and> lexer_source L' = lexer_source L"
proof (induction start L string rule: stringLoop.induct)
  case (1 start L string)
  show ?case
  proof (cases "lexer_text L")
    case Nil
    with "1.prems" show ?thesis
      by (simp add: stringLoop.simps)
  next
    case (Cons char rest)
    obtain r L1 where step: "stringStep start char L string = (r, L1)"
      by (cases "stringStep start char L string")
    obtain cs0 where cs0: "lexer_text L = cs0 @ lexer_text L1" "lexer_source L1 = lexer_source L"
      using stringStep_suffix [OF step] stringStep_shorter [OF step]
      by (metis append_take_drop_id list.distinct(1) Cons)
    note str = stringStep_string [OF step]
    show ?thesis
    proof (cases r)
      case (Return e)
      with "1.prems" Cons step show ?thesis
        by (simp add: stringLoop.simps)
    next
      case (Break s)
      with "1.prems" Cons step have eq: "string' = s" "L' = L1"
        by (simp_all add: stringLoop.simps)
      from str Break "1.prems"(2) have c: "char = hd string" "s = string @ [char]" "L1 = eat 1 L"
        by (cases string; simp)+
      have "lexer_text L = [] @ [hd string] @ lexer_text L'"
        using Cons c eq by (simp add: eat_def)
      moreover have "string' = string @ [] @ [hd string]"
        using c eq by simp
      ultimately show ?thesis
        using cs0 eq by blast
    next
      case (Continue s)
      with "1.prems" Cons step have run: "stringLoop start L1 s = Inr (True, string', L')"
        by (simp add: stringLoop.simps)
      from str Continue obtain d0 where d0: "s = string @ d0"
        by auto
      with "1.prems"(2) have s: "s \<noteq> []" "hd s = hd string"
        by simp_all
      from "1.IH" [OF Cons step [symmetric] Continue run s(1)] s(2)
      obtain cs d where "lexer_text L1 = cs @ [hd string] @ lexer_text L'"
        "string' = s @ d @ [hd string]" "lexer_source L' = lexer_source L1"
        by auto
      with cs0 d0 have "lexer_text L = (cs0 @ cs) @ [hd string] @ lexer_text L'"
        "string' = string @ (d0 @ d) @ [hd string]" "lexer_source L' = lexer_source L"
        by simp_all
      then show ?thesis by blast
    qed
  qed
qed

text \<open>
  The two shapes of a token: its text is the slice of the source that its span names; or it
  is a string literal, its span names a quoted literal, and its text is what the string
  loop decodes between the quotes.
\<close>

lemma keywordsLookup_not_string: "keywordsLookup m \<noteq> StringLiteral"
proof -
  have "\<forall>e \<in> set (map (\<lambda>(k, v). (js k, v)) keywordsTable). snd e \<noteq> StringLiteral"
    by (simp add: keywordsTable_def TokenType_defs)
  then show ?thesis
    by (fastforce simp: keywordsLookup_def TokenType_defs split: option.splits dest!: map_of_SomeD)
qed

lemma findOperator_not_string: "findOperator t = Some m \<Longrightarrow> snd m \<noteq> StringLiteral"
proof -
  assume "findOperator t = Some m"
  then have "m \<in> set (map (\<lambda>(k, v). (js k, v)) operatorEntries)"
    by (auto simp: findOperator_def dest: find_SomeD)
  moreover have "\<forall>e \<in> set (map (\<lambda>(k, v). (js k, v)) operatorEntries). snd e \<noteq> StringLiteral"
    by (simp add: operatorEntries_def TokenType_defs)
  ultimately show ?thesis by blast
qed

definition framed :: "Lexer \<Rightarrow> Lexer \<Rightarrow> bool" where
  "framed L L' = (lexer_source L' = lexer_source L
     \<and> (\<exists>pre. lexer_source L' = pre @ lexer_text L'))"

definition plainToken :: "jsstring \<Rightarrow> Token \<Rightarrow> bool" where
  "plainToken src t = (tok_type t \<noteq> StringLiteral
     \<and> slice src (tok_start t) (tok_stop t) = tok_text t)"

definition stringToken :: "jsstring \<Rightarrow> Token \<Rightarrow> bool" where
  "stringToken src t = (tok_type t = StringLiteral
     \<and> (\<exists>q body. (q = 39 \<or> q = 34)
          \<and> slice src (tok_start t) (tok_stop t) = [q] @ body @ [q]
          \<and> stringLoop (tok_start t)
               \<lparr>lexer_source = src, lexer_text = body @ [q] @ drop (tok_stop t) src\<rparr> [q]
             = Inr (True, [q] @ tok_text t @ [q],
                    \<lparr>lexer_source = src, lexer_text = drop (tok_stop t) src\<rparr>)))"

lemma findOperator_entry:
  "findOperator t = Some m \<Longrightarrow>
     fst m \<noteq> [] \<and> startsWith t (fst m) \<and> snd m \<noteq> StringLiteral"
  using findOperator_prefix findOperator_not_string by blast

lemma plain_step:
  assumes m: "m \<noteq> []" "startsWith (lexer_text L) m"
    and src: "lexer_source L = pre @ lexer_text L"
  shows "framed L (eat (length m) L)"
    and "ty \<noteq> StringLiteral \<Longrightarrow>
      plainToken (lexer_source L) (token ty m (index L) (index (eat (length m) L)))"
proof -
  from m(2) have t: "lexer_text L = m @ drop (length m) (lexer_text L)"
    by (metis append_take_drop_id startsWith_def)
  then have len: "length m \<le> length (lexer_text L)"
    by (metis le_add1 length_append)
  have "lexer_source (eat (length m) L) = (pre @ m) @ lexer_text (eat (length m) L)"
    using src t by (simp add: eat_def)
  then show "framed L (eat (length m) L)"
    unfolding framed_def by (auto simp: eat_def)
  have i: "index L = length pre"
    using src by (simp add: index_def)
  have j: "index (eat (length m) L) = length pre + length m"
    using src len by (simp add: index_def eat_def)
  have "slice (lexer_source L) (length pre) (length pre + length m) = m"
    using src m(2) by (simp add: slice_def startsWith_def)
  then show "ty \<noteq> StringLiteral \<Longrightarrow>
      plainToken (lexer_source L) (token ty m (index L) (index (eat (length m) L)))"
    using i j by (simp add: plainToken_def token_def)
qed


lemma string_step:
  assumes q: "startsWith (lexer_text L) [39] \<or> startsWith (lexer_text L) [34]"
    and src: "lexer_source L = pre @ lexer_text L"
    and run: "stringLoop (index L) (eat 1 L) (take 1 (lexer_text L)) = Inr (True, string, L')"
  shows "framed L L'"
    and "stringToken (lexer_source L)
           (token StringLiteral (butlast (drop 1 string)) (index L) (index L'))"
proof -
  from q obtain c rest where t: "lexer_text L = c # rest" and c: "c = 39 \<or> c = 34"
    by (cases "lexer_text L") (auto simp: startsWith_def)
  have e1: "lexer_text (eat 1 L) = rest" "lexer_source (eat 1 L) = lexer_source L"
    using t by (simp_all add: eat_def)
  from stringLoop_consumed [OF run] t e1
  obtain cs d where cons: "rest = cs @ [c] @ lexer_text L'"
    and str: "string = [c] @ d @ [c]" and s': "lexer_source L' = lexer_source L"
    by auto
  have whole: "lexer_source L = pre @ [c] @ cs @ [c] @ lexer_text L'"
    using src t cons by simp
  then have "lexer_source L' = (pre @ [c] @ cs @ [c]) @ lexer_text L'"
    using s' by simp
  with s' show "framed L L'"
    unfolding framed_def by blast
  have i: "index L = length pre"
    using src by (simp add: index_def)
  have j: "index L' = length pre + length cs + 2"
    using whole s' by (simp add: index_def)
  have sl: "slice (lexer_source L) (length pre) (length pre + length cs + 2) = [c] @ cs @ [c]"
    using whole by (simp add: slice_def)
  have dr: "drop (length pre + length cs + 2) (lexer_source L) = lexer_text L'"
    using whole by simp
  have l1: "eat 1 L = \<lparr>lexer_source = lexer_source L, lexer_text = cs @ [c] @ lexer_text L'\<rparr>"
    using e1 cons by simp
  have l2: "L' = \<lparr>lexer_source = lexer_source L, lexer_text = lexer_text L'\<rparr>"
    using s' by simp
  have tx: "butlast (drop 1 string) = d"
    using str by (simp add: butlast_append)
  have "stringLoop (length pre)
          \<lparr>lexer_source = lexer_source L, lexer_text = cs @ [c] @ lexer_text L'\<rparr> [c]
        = Inr (True, [c] @ d @ [c], \<lparr>lexer_source = lexer_source L, lexer_text = lexer_text L'\<rparr>)"
    using run t i l1 l2 str by simp
  then show "stringToken (lexer_source L)
           (token StringLiteral (butlast (drop 1 string)) (index L) (index L'))"
    unfolding stringToken_def token_def using c i j sl dr tx
    by (auto simp del: append.simps)
qed

inductive consumeShape :: "Lexer \<Rightarrow> consumed \<Rightarrow> Lexer \<Rightarrow> bool" where
  failed: "consumeShape L (Failed e) L'"
| skipped: "m \<noteq> [] \<Longrightarrow> startsWith (lexer_text L) m \<Longrightarrow>
     consumeShape L Skipped (eat (length m) L)"
| plain: "m \<noteq> [] \<Longrightarrow> startsWith (lexer_text L) m \<Longrightarrow> ty \<noteq> StringLiteral \<Longrightarrow>
     consumeShape L (Produced (token ty m (index L) (index (eat (length m) L))))
       (eat (length m) L)"
| string: "startsWith (lexer_text L) [39] \<or> startsWith (lexer_text L) [34] \<Longrightarrow>
     stringLoop (index L) (eat 1 L) (take 1 (lexer_text L)) = Inr (True, string, L') \<Longrightarrow>
     consumeShape L (Produced (token StringLiteral (butlast (drop 1 string)) (index L) (index L')))
       L'"

lemma consume_shape:
  assumes c: "lexerConsume L = (r, L')" and i: "index L < length (lexer_source L)"
  shows "consumeShape L r L'"
proof -
  have ty: "Identifier \<noteq> StringLiteral" "HexadecimalLiteral \<noteq> StringLiteral"
    "OctalLiteral \<noteq> StringLiteral" "BinaryLiteral \<noteq> StringLiteral"
    "FloatLiteral \<noteq> StringLiteral" "IntLiteral \<noteq> StringLiteral"
    by (simp_all add: TokenType_defs)
  show ?thesis
    using c i unfolding lexerConsume_def Let_def matchHexadecimal_def matchOctal_def matchBinary_def
    by (auto split: option.splits if_splits sum.splits prod.splits
        simp del: One_nat_def
        dest!: matchWhitespace_prefix matchLineComment_prefix matchBlockComment_prefix
          matchIdentifier_prefix matchPrefixed_prefix matchFloat_prefix matchInt_prefix
          findOperator_entry
        intro!: consumeShape.intros ty keywordsLookup_not_string)
qed

lemma consume_step:
  assumes c: "lexerConsume L = (r, L')"
    and src: "lexer_source L = pre @ lexer_text L" and ne: "lexer_text L \<noteq> []"
  shows "case r of
           Failed e \<Rightarrow> True
         | Skipped \<Rightarrow> framed L L'
         | Produced t \<Rightarrow> framed L L'
             \<and> (plainToken (lexer_source L) t \<or> stringToken (lexer_source L) t)"
proof -
  have "index L < length (lexer_source L)"
    using src ne by (simp add: index_def)
  from consume_shape [OF c this] show ?thesis
  proof cases
    case (failed e)
    then show ?thesis by simp
  next
    case (skipped m)
    then show ?thesis
      using plain_step(1) [OF skipped(3,4) src] by simp
  next
    case (plain m ty)
    then show ?thesis
      using plain_step [OF plain(3,4) src] by simp
  next
    case (string s)
    then show ?thesis
      using string_step [OF string(2) src string(3)] by simp
  qed
qed

lemma tokensLoop_tokens:
  assumes "tokensLoop L acc = Inr ts"
    and "\<exists>pre. lexer_source L = pre @ lexer_text L"
    and "\<forall>t \<in> set acc. plainToken (lexer_source L) t \<or> stringToken (lexer_source L) t"
  shows "\<forall>t \<in> set ts. plainToken (lexer_source L) t \<or> stringToken (lexer_source L) t"
  using assms
proof (induction L acc rule: tokensLoop.induct)
  case (1 L acc)
  show ?case
  proof (cases "index L < length (lexer_source L)")
    case False
    with "1.prems" show ?thesis
      by (simp add: tokensLoop.simps)
  next
    case True
    then have ne: "lexer_text L \<noteq> []"
      by (auto simp: index_def)
    obtain r L' where c: "lexerConsume L = (r, L')"
      by (cases "lexerConsume L")
    from "1.prems"(2) obtain pre where src: "lexer_source L = pre @ lexer_text L"
      by blast
    note step = consume_step [OF c src ne]
    show ?thesis
    proof (cases r)
      case (Failed e)
      with "1.prems"(1) True c show ?thesis
        by (simp add: tokensLoop.simps)
    next
      case (Produced t)
      with "1.prems"(1) True c have run: "tokensLoop L' (acc @ [t]) = Inr ts"
        by (simp add: tokensLoop.simps)
      from step Produced have f: "framed L L'"
        and t: "plainToken (lexer_source L) t \<or> stringToken (lexer_source L) t"
        by simp_all
      from f have s: "lexer_source L' = lexer_source L" "\<exists>pre. lexer_source L' = pre @ lexer_text L'"
        unfolding framed_def by blast+
      show ?thesis
        using "1.IH"(1) [OF True c [symmetric] Produced run s(2)] "1.prems"(3) t s(1)
        by auto
    next
      case Skipped
      with "1.prems"(1) True c have run: "tokensLoop L' acc = Inr ts"
        by (simp add: tokensLoop.simps)
      from step Skipped have f: "framed L L'"
        by simp
      then have s: "lexer_source L' = lexer_source L" "\<exists>pre. lexer_source L' = pre @ lexer_text L'"
        unfolding framed_def by blast+
      show ?thesis
        using "1.IH"(2) [OF True c [symmetric] Skipped run s(2)] "1.prems"(3) s(1)
        by auto
    qed
  qed
qed

text \<open>
  C6: when lexing succeeds, the slice \<open>source[t.start..t.stop]\<close> of every token that is
  not a string literal is its text. For a string literal the slice is a quote, a body and
  the same quote again, and the text is the decoded body: the string loop, started after
  the opening quote, stops after the closing quote with \<open>string\<close> holding the text
  between the two quotes.
\<close>

theorem token_text_is_source_slice:
  assumes "lexSource src = Inr ts" and "t \<in> set ts"
  shows "(tok_type t \<noteq> StringLiteral \<longrightarrow> slice src (tok_start t) (tok_stop t) = tok_text t)
    \<and> (tok_type t = StringLiteral \<longrightarrow>
         (\<exists>q body. (q = 39 \<or> q = 34)
            \<and> slice src (tok_start t) (tok_stop t) = [q] @ body @ [q]
            \<and> stringLoop (tok_start t)
                 \<lparr>lexer_source = src, lexer_text = body @ [q] @ drop (tok_stop t) src\<rparr> [q]
               = Inr (True, [q] @ tok_text t @ [q],
                      \<lparr>lexer_source = src, lexer_text = drop (tok_stop t) src\<rparr>)))"
proof -
  have "tokensLoop (newLexer src) [] = Inr ts"
    using assms(1) by (simp add: lexSource_def lexerTokens_def)
  moreover have "\<exists>pre. lexer_source (newLexer src) = pre @ lexer_text (newLexer src)"
    by (simp add: newLexer_def)
  ultimately have "\<forall>t \<in> set ts. plainToken (lexer_source (newLexer src)) t
      \<or> stringToken (lexer_source (newLexer src)) t"
    by (rule tokensLoop_tokens) simp
  with assms(2) have "plainToken src t \<or> stringToken src t"
    by (simp add: newLexer_def)
  then show ?thesis
    by (auto simp: plainToken_def stringToken_def)
qed

theorem token_text_is_source_slice_witness:
  "lexSource (js ''x='' @ [34] @ js ''a'' @ [92] @ js ''n'' @ [34])
     = Inr [token Identifier (js ''x'') 0 1, token AssignOperator (js ''='') 1 2,
            token StringLiteral [97, 10] 2 7]
   \<and> slice (js ''x='' @ [34] @ js ''a'' @ [92] @ js ''n'' @ [34]) 0 1 = js ''x''
   \<and> (\<exists>q body. (q = 39 \<or> q = 34)
         \<and> slice (js ''x='' @ [34] @ js ''a'' @ [92] @ js ''n'' @ [34]) 2 7 = [q] @ body @ [q]
         \<and> stringLoop 2
              \<lparr>lexer_source = js ''x='' @ [34] @ js ''a'' @ [92] @ js ''n'' @ [34],
                 lexer_text = body @ [q] @ drop 7 (js ''x='' @ [34] @ js ''a'' @ [92] @ js ''n'' @ [34])\<rparr>
              [q]
            = Inr (True, [q] @ [97, 10] @ [q],
                   \<lparr>lexer_source = js ''x='' @ [34] @ js ''a'' @ [92] @ js ''n'' @ [34],
                      lexer_text = drop 7 (js ''x='' @ [34] @ js ''a'' @ [92] @ js ''n'' @ [34])\<rparr>))"
proof -
  let ?S = "js ''x='' @ [34] @ js ''a'' @ [92] @ js ''n'' @ [34]"
  let ?ts = "[token Identifier (js ''x'') 0 1, token AssignOperator (js ''='') 1 2,
              token StringLiteral [97, 10] 2 7]"
  have h: "lexSource ?S = Inr ?ts"
    by (simp add: lexer_eval)
  have a: "token Identifier (js ''x'') 0 1 \<in> set ?ts"
    and b: "token StringLiteral [97, 10] 2 7 \<in> set ?ts"
    by simp_all
  from token_text_is_source_slice [OF h a] token_text_is_source_slice [OF h b] h
  show ?thesis
    by (simp add: token_def TokenType_defs)
qed

section \<open>Escapes in string literals\<close>

text \<open>
  In the sources below the code unit 92 is the backslash, and 34 the double quote that
  opens and closes the literal.
\<close>

text \<open>
  C9: the simple escapes \<open>n r f v t b 0\<close> decode to LF, CR, FF, VT, HT, BS and NUL;
  \<open>\x1F\<close> decodes to the code unit 0x1F; \<open>\xff\<close>, with lowercase digits, is a lexer
  error.
\<close>

theorem simple_escapes_decode:
  "lexSource ([34, 92] @ js ''n'' @ [34]) = Inr [token StringLiteral [10] 0 4]
   \<and> lexSource ([34, 92] @ js ''r'' @ [34]) = Inr [token StringLiteral [13] 0 4]
   \<and> lexSource ([34, 92] @ js ''f'' @ [34]) = Inr [token StringLiteral [12] 0 4]
   \<and> lexSource ([34, 92] @ js ''v'' @ [34]) = Inr [token StringLiteral [11] 0 4]
   \<and> lexSource ([34, 92] @ js ''t'' @ [34]) = Inr [token StringLiteral [9] 0 4]
   \<and> lexSource ([34, 92] @ js ''b'' @ [34]) = Inr [token StringLiteral [8] 0 4]
   \<and> lexSource ([34, 92] @ js ''0'' @ [34]) = Inr [token StringLiteral [0] 0 4]
   \<and> lexSource ([34, 92] @ js ''x1F'' @ [34]) = Inr [token StringLiteral [31] 0 6]
   \<and> lexSource ([34, 92] @ js ''xff'' @ [34])
       = Inl (lexerError ''Invalid or lowercase hexadecimal escape sequence'' None 0 3)"
  by (simp add: lexer_eval)

text \<open>
  C2: what the lexer does with \<open>"\u{1F600}"\<close> and \<open>"\u{110000}"\<close>. The second is the
  out-of-range error. The first passes the range test, and \<open>String.fromCharCode\<close> then
  keeps the low 16 bits of 0x1F600: the text of the token is the single code unit 0xF600,
  which is neither the code point 0x1F600 nor its surrogate pair 0xD83D 0xDE00.
\<close>

theorem braced_escape_keeps_low_16_bits:
  "lexSource ([34, 92] @ js ''u{1F600}'' @ [34]) = Inr [token StringLiteral [62976] 0 11]
   \<and> (62976 :: nat) = 128512 mod 65536
   \<and> lexSource ([34, 92] @ js ''u{110000}'' @ [34])
       = Inl (lexerError ''Out of range unicode escape sequence'' None 0 4)"
  by (simp add: lexer_eval)

text \<open>
  C3: a lowercase digit in the four-digit form \<open>\u00ff\<close> is the error that the claim
  states, but the braced form is never tested against \<open>[0-9A-F]\<close>: \<open>"\u{ff}"\<close> lexes
  to a string literal with the code unit 0xFF.
\<close>

theorem braced_escape_accepts_lowercase:
  "lexSource ([34, 92] @ js ''u{ff}'' @ [34]) = Inr [token StringLiteral [255] 0 8]
   \<and> lexSource ([34, 92] @ js ''u00ff'' @ [34])
       = Inl (lexerError ''Invalid or lowercase unicode escape sequence'' None 0 3)"
  by (simp add: lexer_eval)

section \<open>The parser\<close>

subsection \<open>Trees and errors\<close>

text \<open>
  The enumeration \<open>TreeType\<close> of \<open>tree.ts\<close>; a member of a TypeScript enumeration is
  its position in the declaration.
\<close>

type_synonym TreeType = nat

named_theorems TreeType_defs

definition Body :: TreeType where [TreeType_defs]: "Body = 0"
definition Statement :: TreeType where [TreeType_defs]: "Statement = 1"
definition TypeStatement :: TreeType where [TreeType_defs]: "TypeStatement = 2"
definition LabeledStatement :: TreeType where [TreeType_defs]: "LabeledStatement = 3"
definition FieldStatement :: TreeType where [TreeType_defs]: "FieldStatement = 4"
definition BlockStatement :: TreeType where [TreeType_defs]: "BlockStatement = 5"
definition IfStatement :: TreeType where [TreeType_defs]: "IfStatement = 6"
definition MatchStatement :: TreeType where [TreeType_defs]: "MatchStatement = 7"
definition DefStatement :: TreeType where [TreeType_defs]: "DefStatement = 8"
definition WhileStatement :: TreeType where [TreeType_defs]: "WhileStatement = 9"
definition DoStatement :: TreeType where [TreeType_defs]: "DoStatement = 10"
definition ForStatement :: TreeType where [TreeType_defs]: "ForStatement = 11"
definition ReturnStatement :: TreeType where [TreeType_defs]: "ReturnStatement = 12"
definition ContinueStatement :: TreeType where [TreeType_defs]: "ContinueStatement = 13"
definition BreakStatement :: TreeType where [TreeType_defs]: "BreakStatement = 14"
definition MethodStatement :: TreeType where [TreeType_defs]: "MethodStatement = 15"
definition EnumStatement :: TreeType where [TreeType_defs]: "EnumStatement = 16"
definition ExpressionStatement :: TreeType where [TreeType_defs]: "ExpressionStatement = 17"
definition EmptyStatement :: TreeType where [TreeType_defs]: "EmptyStatement = 18"
definition ExpressionSequence :: TreeType where [TreeType_defs]: "ExpressionSequence = 19"
definition Expression :: TreeType where [TreeType_defs]: "Expression = 20"
definition AssignmentExpression :: TreeType where [TreeType_defs]: "AssignmentExpression = 21"
definition TernaryExpression :: TreeType where [TreeType_defs]: "TernaryExpression = 22"
definition CoalesceExpression :: TreeType where [TreeType_defs]: "CoalesceExpression = 23"
definition LogicalOrExpression :: TreeType where [TreeType_defs]: "LogicalOrExpression = 24"
definition LogicalAndExpression :: TreeType where [TreeType_defs]: "LogicalAndExpression = 25"
definition BitwiseOrExpression :: TreeType where [TreeType_defs]: "BitwiseOrExpression = 26"
definition BitwiseXorExpression :: TreeType where [TreeType_defs]: "BitwiseXorExpression = 27"
definition BitwiseAndExpression :: TreeType where [TreeType_defs]: "BitwiseAndExpression = 28"
definition EqualityExpression :: TreeType where [TreeType_defs]: "EqualityExpression = 29"
definition ComparisonExpression :: TreeType where [TreeType_defs]: "ComparisonExpression = 30"
definition ShiftExpression :: TreeType where [TreeType_defs]: "ShiftExpression = 31"
definition TermExpression :: TreeType where [TreeType_defs]: "TermExpression = 32"
definition FactorExpression :: TreeType where [TreeType_defs]: "FactorExpression = 33"
definition RangeExpression :: TreeType where [TreeType_defs]: "RangeExpression = 34"
definition UnaryExpression :: TreeType where [TreeType_defs]: "UnaryExpression = 35"
definition ReferenceExpression :: TreeType where [TreeType_defs]: "ReferenceExpression = 36"
definition UnionType :: TreeType where [TreeType_defs]: "UnionType = 37"
definition IntersectionType :: TreeType where [TreeType_defs]: "IntersectionType = 38"
definition ArrayType :: TreeType where [TreeType_defs]: "ArrayType = 39"
definition GenericType :: TreeType where [TreeType_defs]: "GenericType = 40"
definition UnaryType :: TreeType where [TreeType_defs]: "UnaryType = 41"
definition OptionalPropertyAccess :: TreeType where [TreeType_defs]: "OptionalPropertyAccess = 42"
definition PropertyAccess :: TreeType where [TreeType_defs]: "PropertyAccess = 43"
definition MatchOption :: TreeType where [TreeType_defs]: "MatchOption = 44"
definition ArrayIndex :: TreeType where [TreeType_defs]: "ArrayIndex = 45"
definition Parameters :: TreeType where [TreeType_defs]: "Parameters = 46"
definition Parameter :: TreeType where [TreeType_defs]: "Parameter = 47"
definition ArrayInitializer :: TreeType where [TreeType_defs]: "ArrayInitializer = 48"
definition ArrayValue :: TreeType where [TreeType_defs]: "ArrayValue = 49"
definition TypeCast :: TreeType where [TreeType_defs]: "TypeCast = 50"
definition MethodCall :: TreeType where [TreeType_defs]: "MethodCall = 51"
definition MethodCallArgument :: TreeType where [TreeType_defs]: "MethodCallArgument = 52"
definition LiteralValue :: TreeType where [TreeType_defs]: "LiteralValue = 53"

text \<open>The interface \<open>Tree\<close>: \<open>items\<close> holds tokens and trees.\<close>

datatype Tree = Tree (tree_type: TreeType) (tree_start: nat) (tree_stop: nat)
    (tree_items: "Item list")
  and Item = TokenItem Token | TreeItem Tree

text \<open>The class \<open>ParserError\<close> of \<open>utils.ts\<close>.\<close>

record ParserError =
  err_message :: string
  err_content :: "jsstring option"
  err_start :: nat
  err_stop :: nat

definition parserError :: "string \<Rightarrow> jsstring option \<Rightarrow> nat \<Rightarrow> nat \<Rightarrow> ParserError" where
  "parserError m c a b = \<lparr>err_message = m, err_content = c, err_start = a, err_stop = b\<rparr>"

subsection \<open>The state of the class \<open>Parser\<close>\<close>

text \<open>
  The field \<open>stack\<close> is never empty while a production runs: the constructor puts the
  token array on it, and every production pushes before it pops. The record holds the top
  of the stack, \<open>current\<close>, and the cursors \<open>below\<close> it, nearest first (the reverse of
  the source's array). The field \<open>tokens\<close> is the same array object as the bottom of the
  stack, so what \<open>this.tokens\<close> reads is the bottom cursor as it is now: \<open>rootTokens\<close>.
  Every step returns an \<open>option\<close>: \<open>None\<close> stands for no result, which is a
  \<open>TypeError\<close> (\<open>pop\<close> with nothing below) or a run that does not end.
\<close>

record Parser =
  current :: "Token list"
  below :: "Token list list"
  error :: "ParserError option"

type_synonym 'a parsing = "Parser \<Rightarrow> ('a \<times> Parser) option"

definition newParser :: "Token list \<Rightarrow> Parser" where
  "newParser tokens = \<lparr>current = tokens, below = [], error = None\<rparr>"

definition rootTokens :: "Parser \<Rightarrow> Token list" where
  "rootTokens P = last (current P # below P)"

definition parent :: "Parser \<Rightarrow> Token list option" where
  "parent P = (case below P of [] \<Rightarrow> None | p # _ \<Rightarrow> Some p)"

definition push :: "Parser \<Rightarrow> Parser" where
  "push P = P\<lparr>below := current P # below P\<rparr>"

text \<open>
  \<open>pop(update)\<close>: the top cursor is removed; with \<open>update\<close> the cursor under it takes
  its contents (\<open>mutate\<close>), otherwise it is as it was at the matching \<open>push\<close>.
\<close>

definition pop :: "bool \<Rightarrow> Parser \<Rightarrow> Parser option" where
  "pop update P =
     (case below P of
        [] \<Rightarrow> None
      | p # rest \<Rightarrow> Some (P\<lparr>current := (if update then current P else p), below := rest\<rparr>))"

text \<open>
  \<open>start(tokens)\<close> and \<open>stop(tokens)\<close>; the argument defaults to the current cursor, also
  when it is passed as \<open>undefined\<close>.
\<close>

definition startOf :: "Parser \<Rightarrow> Token list option \<Rightarrow> nat" where
  "startOf P tokens =
     (case (case tokens of None \<Rightarrow> current P | Some ts \<Rightarrow> ts) of
        t # _ \<Rightarrow> tok_start t
      | [] \<Rightarrow> (case rootTokens P of [] \<Rightarrow> 0 | _ # _ \<Rightarrow> tok_start (last (rootTokens P))))"

definition stopOf :: "Parser \<Rightarrow> Token list option \<Rightarrow> nat" where
  "stopOf P tokens =
     (case (case tokens of None \<Rightarrow> current P | Some ts \<Rightarrow> ts) of
        t # _ \<Rightarrow> tok_stop t
      | [] \<Rightarrow> (case rootTokens P of [] \<Rightarrow> 0 | _ # _ \<Rightarrow> tok_stop (last (rootTokens P))))"

definition start :: "Parser \<Rightarrow> nat" where
  "start P = startOf P None"

definition stop :: "Parser \<Rightarrow> nat" where
  "stop P = stopOf P None"

text \<open>
  \<open>throw(error, pop)\<close>: the single error slot keeps the error that starts furthest, the
  later one at equal starts; the result is \<open>undefined\<close>, here \<open>None\<close> for the tree.
\<close>

definition recordError :: "ParserError \<Rightarrow> Parser \<Rightarrow> Parser" where
  "recordError e P =
     (case error P of
        None \<Rightarrow> P\<lparr>error := Some e\<rparr>
      | Some stored \<Rightarrow> if err_start stored \<le> err_start e then P\<lparr>error := Some e\<rparr> else P)"

definition throw :: "ParserError \<Rightarrow> bool \<Rightarrow> (Tree option) parsing" where
  "throw e doPop P =
     (if doPop then map_option (\<lambda>P'. (None, P')) (pop False (recordError e P))
      else Some (None, recordError e P))"

text \<open>
  The call \<open>this.throw(new ParserError(message, null, this.start(), this.stop()))\<close>, which
  is how every production fails.
\<close>

definition throwHere :: "string \<Rightarrow> (Tree option) parsing" where
  "throwHere message P = throw (parserError message None (start P) (stop P)) True P"

text \<open>\<open>tree(tree, pop)\<close>; every call in the source leaves \<open>pop\<close> at its default, true.\<close>

definition tree :: "TreeType \<Rightarrow> Item list \<Rightarrow> bool \<Rightarrow> (Tree option) parsing" where
  "tree ty items doPop P =
     (let a = startOf P (parent P); b = startOf P (Some (current P)) in
      if doPop then map_option (\<lambda>P'. (Some (Tree ty a b items), P')) (pop True P)
      else Some (Some (Tree ty a b items), P))"

definition consume :: "TokenType \<Rightarrow> Parser \<Rightarrow> Token option \<times> Parser" where
  "consume ty P =
     (case current P of
        [] \<Rightarrow> (None, P)
      | t # ts \<Rightarrow> if tok_type t = ty then (Some t, P\<lparr>current := ts\<rparr>) else (None, P))"

text \<open>A chain \<open>this.consume(A) ?? this.consume(B) ?? ...\<close>.\<close>

fun consumeAny :: "TokenType list \<Rightarrow> Parser \<Rightarrow> Token option \<times> Parser" where
  "consumeAny [] P = (None, P)"
| "consumeAny (ty # tys) P =
     (case consume ty P of
        (Some t, P') \<Rightarrow> (Some t, P')
      | (None, P') \<Rightarrow> consumeAny tys P')"

subsection \<open>Control flow of the productions\<close>

text \<open>
  A \<open>while (true)\<close> loop of a production: \<open>body\<close> is one pass, which goes round again,
  breaks out, or returns from the production, each with the value of \<open>result\<close>.
  The loop has no bound of its own, so it is a partial function.
\<close>

partial_function (option) loop ::
  "('a \<Rightarrow> 's \<Rightarrow> (('a, 'r) flow \<times> 's) option) \<Rightarrow> 'a \<Rightarrow> 's \<Rightarrow> (('a + 'r) \<times> 's) option"
where
  "loop body acc s =
     (case body acc s of
        None \<Rightarrow> None
      | Some (Continue acc', s') \<Rightarrow> loop body acc' s'
      | Some (Break acc', s') \<Rightarrow> Some (Inl acc', s')
      | Some (Return r, s') \<Rightarrow> Some (Inr r, s'))"

text \<open>The loop and what follows it, unless the loop returned from the production.\<close>

definition whileLoop ::
  "('a \<Rightarrow> 's \<Rightarrow> (('a, 'r) flow \<times> 's) option) \<Rightarrow> 'a \<Rightarrow> ('a \<Rightarrow> 's \<Rightarrow> ('r \<times> 's) option)
     \<Rightarrow> 's \<Rightarrow> ('r \<times> 's) option"
where
  "whileLoop body acc k s =
     Option.bind (loop body acc s)
       (\<lambda>(exit, s'). case exit of Inl acc' \<Rightarrow> k acc' s' | Inr r \<Rightarrow> Some (r, s'))"

datatype production =
    ParseBody | ParseStatement | ParseLabeledStatement | ParseBlockStatement | ParseIfStatement
  | ParseWhileStatement | ParseMatchStatement | ParseMatchOption | ParseDefStatement
  | ParseParameters | ParseParameter | ParseDoStatement | ParseForStatement
  | ParseReturnStatement | ParseContinueStatement | ParseBreakStatement | ParseEmptyStatement
  | ParseExpressionStatement | ParseFieldStatement | ParseUnionType | ParseIntersectionType
  | ParseUnaryType | ParseArrayType | ParseGenericType | ParseExpressionSequence
  | ParseAssignmentExpression | ParseTernaryExpression | ParseCoalesceExpression
  | ParseLogicalOrExpression | ParseLogicalAndExpression | ParseBitwiseOrExpression
  | ParseBitwiseXorExpression | ParseBitwiseAndExpression | ParseEqualityExpression
  | ParseComparisonExpression | ParseShiftExpression | ParseTermExpression
  | ParseFactorExpression | ParseRangeExpression | ParseUnaryExpression
  | ParseReferenceExpression | ParseLiteralValue | ParseCast | ParsePropertyAccess
  | ParseOptionalPropertyAccess | ParseArrayIndex | ParseMethodCall | ParseArrayInitializer
  | ParseArrayValue | ParseMethodCallArgument

text \<open>
  The productions call each other. Each is defined for any \<open>rec\<close>, which stands for the
  methods of the parser; \<open>parse\<close> below ties the knot. In a production, the state runs
  from each step to the next, and the steps are written with these forms:
  \<^item> \<open>expect ty message k\<close> is \<open>if (!this.consume(ty)) return this.throw(...)\<close>, and then \<open>k\<close>
    of the token;
  \<^item> \<open>require rec p message k\<close> is \<open>const x = this.p(); if (!x) return this.throw(...)\<close>,
    and then \<open>k\<close> of the tree;
  \<^item> \<open>firstOf rec [p, q, ...]\<close> is \<open>this.p() ?? this.q() ?? ...\<close>.
\<close>

type_synonym methods = "production \<Rightarrow> (Tree option) parsing"

definition expect ::
  "TokenType \<Rightarrow> string \<Rightarrow> (Token \<Rightarrow> (Tree option) parsing) \<Rightarrow> (Tree option) parsing" where
  "expect ty message k P =
     (case consume ty P of
        (None, P') \<Rightarrow> throwHere message P'
      | (Some t, P') \<Rightarrow> k t P')"

definition expectAny ::
  "TokenType list \<Rightarrow> string \<Rightarrow> (Token \<Rightarrow> (Tree option) parsing) \<Rightarrow> (Tree option) parsing" where
  "expectAny tys message k P =
     (case consumeAny tys P of
        (None, P') \<Rightarrow> throwHere message P'
      | (Some t, P') \<Rightarrow> k t P')"

definition require ::
  "methods \<Rightarrow> production \<Rightarrow> string \<Rightarrow> (Tree \<Rightarrow> (Tree option) parsing) \<Rightarrow> (Tree option) parsing"
where
  "require rec p message k P =
     (case rec p P of
        None \<Rightarrow> None
      | Some (None, P') \<Rightarrow> throwHere message P'
      | Some (Some t, P') \<Rightarrow> k t P')"

fun firstOf :: "methods \<Rightarrow> production list \<Rightarrow> (Tree option) parsing" where
  "firstOf rec [] P = Some (None, P)"
| "firstOf rec (p # ps) P =
     (case rec p P of
        None \<Rightarrow> None
      | Some (Some t, P') \<Rightarrow> Some (Some t, P')
      | Some (None, P') \<Rightarrow> firstOf rec ps P')"

subsection \<open>Statements\<close>

text \<open>The loop \<open>while (true) { statement = this.parseStatement(); ... }\<close> of a body or block.\<close>

definition statements :: "methods \<Rightarrow> Item list \<Rightarrow> Parser \<Rightarrow> ((Item list, Tree option) flow \<times> Parser) option"
where
  "statements rec result P =
     (case rec ParseStatement P of
        None \<Rightarrow> None
      | Some (None, P') \<Rightarrow> Some (Break result, P')
      | Some (Some statement, P') \<Rightarrow> Some (Continue (result @ [TreeItem statement]), P'))"

definition parseBody :: "methods \<Rightarrow> (Tree option) parsing" where
  "parseBody rec P =
     whileLoop (statements rec) [] (\<lambda>result. tree Body result True) (push P)"

definition parseStatement :: "methods \<Rightarrow> (Tree option) parsing" where
  "parseStatement rec P =
     (case firstOf rec
             [ParseLabeledStatement, ParseFieldStatement, ParseExpressionStatement,
              ParseDefStatement, ParseIfStatement, ParseWhileStatement, ParseMatchStatement,
              ParseDoStatement, ParseForStatement, ParseReturnStatement,
              ParseContinueStatement, ParseBreakStatement, ParseBlockStatement,
              ParseEmptyStatement] (push P) of
        None \<Rightarrow> None
      | Some (None, P') \<Rightarrow> throwHere ''Expected statement'' P'
      | Some (Some statement, P') \<Rightarrow> tree Statement [TreeItem statement] True P')"

definition parseLabeledStatement :: "methods \<Rightarrow> (Tree option) parsing" where
  \<open>parseLabeledStatement rec P =
     expect Identifier ''Expected labeled statement'' (\<lambda>identifier.
     expect ColonPunctuator ''Expected ":" after label'' (\<lambda>_.
     require rec ParseStatement ''Expected statement'' (\<lambda>statement.
     tree LabeledStatement [TokenItem identifier, TreeItem statement] True))) (push P)\<close>

definition parseBlockStatement :: "methods \<Rightarrow> (Tree option) parsing" where
  "parseBlockStatement rec P =
     expect OpenBrace ''Expected block statement'' (\<lambda>_.
     whileLoop (statements rec) [] (\<lambda>result.
     expect CloseBrace ''Unterminated block statement'' (\<lambda>_.
     tree BlockStatement result True))) (push P)"

definition parseIfStatement :: "methods \<Rightarrow> (Tree option) parsing" where
  "parseIfStatement rec P =
     expect IfKeyword ''Expected if statement'' (\<lambda>_.
     expect OpenParenthesis ''Expected if condition'' (\<lambda>_.
     require rec ParseExpressionSequence ''Expected expression sequence'' (\<lambda>condition.
     expect CloseParenthesis ''Unterminated if condition'' (\<lambda>_.
     require rec ParseStatement ''Expected statement'' (\<lambda>statement P1.
       case consume ElseKeyword P1 of
         (None, P2) \<Rightarrow>
           tree IfStatement [TreeItem condition, TreeItem statement] True P2
       | (Some _, P2) \<Rightarrow>
           require rec ParseStatement ''Expected statement'' (\<lambda>statement'.
           tree IfStatement [TreeItem condition, TreeItem statement, TreeItem statement'] True)
             P2))))) (push P)"

definition parseWhileStatement :: "methods \<Rightarrow> (Tree option) parsing" where
  "parseWhileStatement rec P =
     expect WhileKeyword ''Expected while statement'' (\<lambda>_.
     expect OpenParenthesis ''Expected while condition'' (\<lambda>_.
     require rec ParseExpressionSequence ''Expected expression sequence'' (\<lambda>condition.
     expect CloseParenthesis ''Unterminated while condition'' (\<lambda>_.
     require rec ParseStatement ''Expected statement'' (\<lambda>statement.
     tree WhileStatement [TreeItem condition, TreeItem statement] True))))) (push P)"

text \<open>
  In \<open>parseMatchStatement\<close> the loop carries the pair of the local variables \<open>match\<close>
  and \<open>result\<close>.
\<close>

definition matchOptions ::
  "methods \<Rightarrow> bool \<times> Item list \<Rightarrow> Parser
     \<Rightarrow> ((bool \<times> Item list, Tree option) flow \<times> Parser) option"
where
  "matchOptions rec acc P =
     (case rec ParseMatchOption P of
        None \<Rightarrow> None
      | Some (None, P') \<Rightarrow> Some (Break acc, P')
      | Some (Some option, P') \<Rightarrow> Some (Continue (False, snd acc @ [TreeItem option]), P'))"

definition parseMatchStatement :: "methods \<Rightarrow> (Tree option) parsing" where
  "parseMatchStatement rec P =
     expect MatchKeyword ''Expected match statement'' (\<lambda>_.
     expect OpenParenthesis ''Expected match value'' (\<lambda>_.
     require rec ParseExpressionSequence ''Expected expression sequence'' (\<lambda>value.
     expect CloseParenthesis ''Unterminated match value'' (\<lambda>_.
     expect OpenBrace ''Expected match body'' (\<lambda>_.
     whileLoop (matchOptions rec) (False, [TreeItem value]) (\<lambda>acc P1.
       case rec ParseBody P1 of
         None \<Rightarrow> None
       | Some (Some fallback, P2) \<Rightarrow>
           expect CloseBrace ''Unterminated match body'' (\<lambda>_.
           tree MatchStatement (snd acc @ [TreeItem fallback]) True) P2
       | Some (None, P2) \<Rightarrow>
           if \<not> fst acc then throwHere ''Expected match options or fallback'' P2
           else
             expect CloseBrace ''Unterminated match body'' (\<lambda>_.
             tree MatchStatement (snd acc) True) P2)))))) (push P)"

definition parseMatchOption :: "methods \<Rightarrow> (Tree option) parsing" where
  \<open>parseMatchOption rec P =
     require rec ParseAssignmentExpression ''Expected match option'' (\<lambda>expression.
     expect ArrowOperator ''Expected "=>"'' (\<lambda>_.
     require rec ParseStatement ''Expected match option body'' (\<lambda>body.
     tree MatchOption [TreeItem expression, TreeItem body] True))) (push P)\<close>

definition parseDefStatement :: "methods \<Rightarrow> (Tree option) parsing" where
  "parseDefStatement rec P =
     expect DefKeyword ''Expected def statement'' (\<lambda>_.
     expect Identifier ''Expected identifier'' (\<lambda>identifier.
     require rec ParseParameters ''Expected parameters'' (\<lambda>parameters P1.
       (let body = (\<lambda>result P3.
              case firstOf rec [ParseBlockStatement, ParseEmptyStatement] P3 of
                None \<Rightarrow> None
              | Some (None, P4) \<Rightarrow> throwHere ''Expected def body'' P4
              | Some (Some statement, P4) \<Rightarrow>
                  tree DefStatement (result @ [TreeItem statement]) True P4)
        in case consume ColonPunctuator P1 of
             (None, P2) \<Rightarrow> body [TokenItem identifier, TreeItem parameters] P2
           | (Some _, P2) \<Rightarrow>
               require rec ParseUnaryType ''Expected type'' (\<lambda>type.
               body [TokenItem identifier, TreeItem parameters, TreeItem type]) P2)))) (push P)"

text \<open>
  The three productions for a bracketed, comma-separated list (\<open>parseParameters\<close>,
  \<open>parseMethodCall\<close>, \<open>parseArrayInitializer\<close>) are the same code up to the kinds and
  messages. \<open>listElements\<close> is the body of their loop.
\<close>

definition listElements ::
  "methods \<Rightarrow> production \<Rightarrow> string \<Rightarrow> Item list \<Rightarrow> Parser
     \<Rightarrow> ((Item list, Tree option) flow \<times> Parser) option"
where
  "listElements rec element message result P =
     (case (if result \<noteq> [] then consume CommaPunctuator P else (None, P)) of (comma, P1) \<Rightarrow>
        if result \<noteq> [] \<and> comma = None then Some (Break result, P1)
        else
          (case rec element P1 of
             None \<Rightarrow> None
           | Some (None, P2) \<Rightarrow>
               if result = [] then Some (Break result, P2)
               else map_option (\<lambda>(r, P3). (Return r, P3)) (throwHere message P2)
           | Some (Some x, P2) \<Rightarrow> Some (Continue (result @ [TreeItem x]), P2)))"

definition bracketedList ::
  "TreeType \<Rightarrow> TokenType \<Rightarrow> string \<Rightarrow> production \<Rightarrow> string \<Rightarrow> TokenType \<Rightarrow> string
     \<Rightarrow> methods \<Rightarrow> (Tree option) parsing"
where
  "bracketedList ty opening expected element missing closing unterminated rec P =
     expect opening expected (\<lambda>_.
     whileLoop (listElements rec element missing) [] (\<lambda>result.
     expect closing unterminated (\<lambda>_.
     tree ty result True))) (push P)"

definition parseParameters :: "methods \<Rightarrow> (Tree option) parsing" where
  "parseParameters =
     bracketedList Parameters OpenParenthesis ''Expected parameters''
       ParseParameter ''Expected parameter'' CloseParenthesis ''Unterminated parameters''"

definition parseParameter :: "methods \<Rightarrow> (Tree option) parsing" where
  \<open>parseParameter rec P =
     expectAny [Identifier, InclusiveRangeOperator] ''Expected parameter'' (\<lambda>item P1.
       if tok_type item = Identifier then
         expect ColonPunctuator ''Expected ":" after parameter name'' (\<lambda>_.
         require rec ParseUnaryType ''Expected type'' (\<lambda>type.
         tree Parameter [TokenItem item, TreeItem type] True)) P1
       else tree Parameter [TokenItem item] True P1) (push P)\<close>

definition parseDoStatement :: "methods \<Rightarrow> (Tree option) parsing" where
  "parseDoStatement rec P =
     expect DoKeyword ''Expected do statement'' (\<lambda>_.
     require rec ParseStatement ''Expected statement'' (\<lambda>statement.
     expect WhileKeyword ''Expected while clause'' (\<lambda>_.
     expect OpenParenthesis ''Expected do condition'' (\<lambda>_.
     require rec ParseExpressionSequence ''Expected expression sequence'' (\<lambda>condition.
     expect CloseParenthesis ''Unterminated while condition'' (\<lambda>_.
     tree DoStatement [TreeItem statement, TreeItem condition] True)))))) (push P)"

definition parseForStatement :: "methods \<Rightarrow> (Tree option) parsing" where
  "parseForStatement rec P =
     expect ForKeyword ''Expected for statement'' (\<lambda>_.
     expect OpenParenthesis ''Expected for iterator'' (\<lambda>_.
     expect Identifier ''Expected identifier'' (\<lambda>identifier.
     expect InKeyword ''Expected in clause'' (\<lambda>_.
     require rec ParseAssignmentExpression ''Expected iterator expression'' (\<lambda>expression.
     expect CloseParenthesis ''Unterminated for iterator'' (\<lambda>_.
     require rec ParseStatement ''Expected statement'' (\<lambda>statement.
     tree ForStatement [TokenItem identifier, TreeItem expression, TreeItem statement]
       True))))))) (push P)"

definition parseReturnStatement :: "methods \<Rightarrow> (Tree option) parsing" where
  "parseReturnStatement rec P =
     expect ReturnKeyword ''Expected return statement'' (\<lambda>_ P1.
       case rec ParseExpressionSequence P1 of
         None \<Rightarrow> None
       | Some (value, P2) \<Rightarrow>
           expect SemicolonPunctuator ''Expected semicolon'' (\<lambda>_.
           tree ReturnStatement (case value of None \<Rightarrow> [] | Some v \<Rightarrow> [TreeItem v]) True) P2)
       (push P)"

text \<open>\<open>parseContinueStatement\<close> and \<open>parseBreakStatement\<close> differ in the keyword only.\<close>

definition jumpStatement ::
  "TreeType \<Rightarrow> TokenType \<Rightarrow> string \<Rightarrow> methods \<Rightarrow> (Tree option) parsing" where
  "jumpStatement ty keyword expected rec P =
     expect keyword expected (\<lambda>_ P1.
       case consume Identifier P1 of (identifier, P2) \<Rightarrow>
         expect SemicolonPunctuator ''Expected semicolon'' (\<lambda>_.
         tree ty (case identifier of None \<Rightarrow> [] | Some i \<Rightarrow> [TokenItem i]) True) P2)
       (push P)"

definition parseContinueStatement :: "methods \<Rightarrow> (Tree option) parsing" where
  "parseContinueStatement =
     jumpStatement ContinueStatement ContinueKeyword ''Expected continue statement''"

definition parseBreakStatement :: "methods \<Rightarrow> (Tree option) parsing" where
  "parseBreakStatement =
     jumpStatement BreakStatement BreakKeyword ''Expected break statement''"

definition parseEmptyStatement :: "methods \<Rightarrow> (Tree option) parsing" where
  "parseEmptyStatement rec P =
     expect SemicolonPunctuator ''Expected semicolon'' (\<lambda>_.
     tree EmptyStatement [] True) (push P)"

definition parseExpressionStatement :: "methods \<Rightarrow> (Tree option) parsing" where
  "parseExpressionStatement rec P =
     require rec ParseExpressionSequence ''Expected expression sequence'' (\<lambda>expressions.
     expect SemicolonPunctuator ''Expected semicolon'' (\<lambda>_.
     tree ExpressionStatement [TreeItem expressions] True)) (push P)"

definition parseFieldStatement :: "methods \<Rightarrow> (Tree option) parsing" where
  "parseFieldStatement rec P =
     expectAny [ValKeyword, VarKeyword] ''Expected field statement'' (\<lambda>keyword.
     expect Identifier ''Expected field name '' (\<lambda>identifier P1.
       (let finish = (\<lambda>result.
              expect SemicolonPunctuator ''Expected semicolon'' (\<lambda>_.
              tree FieldStatement result True));
            initializer = (\<lambda>result P3.
              case consume AssignOperator P3 of
                (None, P4) \<Rightarrow> finish result P4
              | (Some _, P4) \<Rightarrow>
                  require rec ParseAssignmentExpression ''Expected expression'' (\<lambda>expression.
                  finish (result @ [TreeItem expression])) P4)
        in case consume ColonPunctuator P1 of
             (None, P2) \<Rightarrow> initializer [TokenItem keyword, TokenItem identifier] P2
           | (Some _, P2) \<Rightarrow>
               require rec ParseUnionType ''Expected field type'' (\<lambda>type.
               initializer [TokenItem keyword, TokenItem identifier, TreeItem type]) P2)))
       (push P)"

subsection \<open>Types and expressions\<close>

text \<open>
  The productions for a left operand followed by operator and operand pairs are the same
  code up to the kinds, the operand and what is pushed on \<open>result\<close>:
  \<^item> \<open>DropOperator\<close>: \<open>result.push(rhs)\<close> once the operand has parsed;
  \<^item> \<open>KeepOperator\<close>: \<open>result.push(operator, rhs)\<close> once the operand has parsed;
  \<^item> \<open>KeepOperatorFirst\<close>: \<open>result.push(operator)\<close> before the operand is tried, and
    \<open>result.push(rhs)\<close> once it has parsed (\<open>parseTermExpression\<close>).
  \<open>operatorLoop\<close> is the body of their loop: it pushes a cursor, and pops it with
  \<open>update\<close> only when the pair has parsed.
\<close>

datatype operatorMode = DropOperator | KeepOperator | KeepOperatorFirst

definition operatorLoop ::
  "methods \<Rightarrow> TokenType list \<Rightarrow> (Token \<Rightarrow> production) \<Rightarrow> operatorMode \<Rightarrow> Item list \<Rightarrow> Parser
     \<Rightarrow> ((Item list, Tree option) flow \<times> Parser) option"
where
  "operatorLoop rec kinds operand mode result P =
     (case consumeAny kinds (push P) of
        (None, P1) \<Rightarrow> map_option (\<lambda>P'. (Break result, P')) (pop False P1)
      | (Some operator, P1) \<Rightarrow>
          (case rec (operand operator) P1 of
             None \<Rightarrow> None
           | Some (None, P2) \<Rightarrow>
               map_option
                 (\<lambda>P'. (Break (if mode = KeepOperatorFirst then result @ [TokenItem operator]
                                else result), P'))
                 (pop False P2)
           | Some (Some rhs, P2) \<Rightarrow>
               map_option
                 (\<lambda>P'. (Continue (if mode = DropOperator then result @ [TreeItem rhs]
                                   else result @ [TokenItem operator, TreeItem rhs]), P'))
                 (pop True P2)))"

definition binaryProduction ::
  "TreeType \<Rightarrow> production \<Rightarrow> string \<Rightarrow> TokenType list \<Rightarrow> (Token \<Rightarrow> production) \<Rightarrow> operatorMode
     \<Rightarrow> methods \<Rightarrow> (Tree option) parsing"
where
  "binaryProduction ty first expected kinds operand mode rec P =
     require rec first expected (\<lambda>lhs.
     whileLoop (operatorLoop rec kinds operand mode) [TreeItem lhs] (\<lambda>result.
     tree ty result True)) (push P)"

definition parseUnionType :: "methods \<Rightarrow> (Tree option) parsing" where
  "parseUnionType =
     binaryProduction UnionType ParseIntersectionType ''Expected union type''
       [OrOperator] (\<lambda>_. ParseIntersectionType) DropOperator"

definition parseIntersectionType :: "methods \<Rightarrow> (Tree option) parsing" where
  "parseIntersectionType =
     binaryProduction IntersectionType ParseUnaryType ''Expected intersection type''
       [AndOperator] (\<lambda>_. ParseUnaryType) DropOperator"

definition typeModifiers ::
  "methods \<Rightarrow> Item list \<Rightarrow> Parser \<Rightarrow> ((Item list, Tree option) flow \<times> Parser) option" where
  "typeModifiers rec result P =
     (case firstOf rec [ParseGenericType, ParseArrayType] P of
        None \<Rightarrow> None
      | Some (Some match, P1) \<Rightarrow> Some (Continue (result @ [TreeItem match]), P1)
      | Some (None, P1) \<Rightarrow>
          (case consumeAny [TimesOperator, OptionalOperator] P1 of
             (None, P2) \<Rightarrow> Some (Break result, P2)
           | (Some operator, P2) \<Rightarrow> Some (Continue (result @ [TokenItem operator]), P2)))"

definition parseUnaryType :: "methods \<Rightarrow> (Tree option) parsing" where
  "parseUnaryType rec P =
     expectAny [Identifier, IntegerType, UnsignedIntegerType, FloatType, BooleanType,
                StringType, VoidType] ''Expected type or identifier'' (\<lambda>base.
     whileLoop (typeModifiers rec) [TokenItem base] (\<lambda>result.
     tree UnaryType result True)) (push P)"

definition parseArrayType :: "methods \<Rightarrow> (Tree option) parsing" where
  "parseArrayType rec P =
     expect OpenBracket ''Expected array type modifier'' (\<lambda>_.
     expect CloseBracket ''Unterminated array type modifier'' (\<lambda>_.
     tree ArrayType [] True)) (push P)"

definition parseGenericType :: "methods \<Rightarrow> (Tree option) parsing" where
  "parseGenericType rec P =
     expect LessThanOperator ''Expected generic type arguments'' (\<lambda>_.
     require rec ParseUnionType ''Expected generic type argument'' (\<lambda>lhs.
     whileLoop (operatorLoop rec [CommaPunctuator] (\<lambda>_. ParseUnionType) DropOperator)
       [TreeItem lhs] (\<lambda>result.
     expect GreaterThanOperator ''Unterminated generic type arguments'' (\<lambda>_.
     tree GenericType result True)))) (push P)"

definition parseExpressionSequence :: "methods \<Rightarrow> (Tree option) parsing" where
  "parseExpressionSequence =
     binaryProduction ExpressionSequence ParseAssignmentExpression
       ''Expected expression sequence''
       [CommaPunctuator] (\<lambda>_. ParseAssignmentExpression) DropOperator"

definition parseAssignmentExpression :: "methods \<Rightarrow> (Tree option) parsing" where
  "parseAssignmentExpression rec P =
     require rec ParseTernaryExpression ''Expected assignment expression'' (\<lambda>lhs P1.
       case consumeAny
              [PlusAssignOperator, MinusAssignOperator, TimesAssignOperator,
               DivideAssignOperator, ModuloAssignOperator, AndAssignOperator,
               OrAssignOperator, XorAssignOperator, CoalesceAssignOperator,
               LeftShiftAssignOperator, RightShiftAssignOperator,
               UnsignedRightShiftAssignOperator, AssignOperator] (push P1) of
         (None, P2) \<Rightarrow>
           Option.bind (pop False P2) (tree AssignmentExpression [TreeItem lhs] True)
       | (Some operator, P2) \<Rightarrow>
           (case rec ParseTernaryExpression P2 of
              None \<Rightarrow> None
            | Some (None, P3) \<Rightarrow>
                Option.bind (pop False P3) (tree AssignmentExpression [TreeItem lhs] True)
            | Some (Some rhs, P3) \<Rightarrow>
                Option.bind (pop True P3)
                  (tree AssignmentExpression
                     [TreeItem lhs, TokenItem operator, TreeItem rhs] True)))
       (push P)"

definition parseTernaryExpression :: "methods \<Rightarrow> (Tree option) parsing" where
  "parseTernaryExpression rec P =
     require rec ParseCoalesceExpression ''Expected ternary expression'' (\<lambda>condition P1.
       (let abandon = (\<lambda>P'.
              Option.bind (pop False P') (tree TernaryExpression [TreeItem condition] True))
        in case consume OptionalOperator (push P1) of
             (None, P2) \<Rightarrow> abandon P2
           | (Some _, P2) \<Rightarrow>
               (case rec ParseAssignmentExpression P2 of
                  None \<Rightarrow> None
                | Some (None, P3) \<Rightarrow> abandon P3
                | Some (Some lhs, P3) \<Rightarrow>
                    (case consume ColonPunctuator P3 of
                       (None, P4) \<Rightarrow> abandon P4
                     | (Some _, P4) \<Rightarrow>
                         (case rec ParseAssignmentExpression P4 of
                            None \<Rightarrow> None
                          | Some (None, P5) \<Rightarrow> abandon P5
                          | Some (Some rhs, P5) \<Rightarrow>
                              Option.bind (pop True P5)
                                (tree TernaryExpression
                                   [TreeItem condition, TreeItem lhs, TreeItem rhs] True))))))
       (push P)"

definition parseCoalesceExpression :: "methods \<Rightarrow> (Tree option) parsing" where
  "parseCoalesceExpression =
     binaryProduction CoalesceExpression ParseLogicalOrExpression
       ''Expected coalesce expression''
       [CoalesceOperator] (\<lambda>_. ParseLogicalOrExpression) DropOperator"

definition parseLogicalOrExpression :: "methods \<Rightarrow> (Tree option) parsing" where
  "parseLogicalOrExpression =
     binaryProduction LogicalOrExpression ParseLogicalAndExpression
       ''Expected logical or expression''
       [OrKeyword] (\<lambda>_. ParseLogicalAndExpression) DropOperator"

definition parseLogicalAndExpression :: "methods \<Rightarrow> (Tree option) parsing" where
  "parseLogicalAndExpression =
     binaryProduction LogicalAndExpression ParseBitwiseOrExpression
       ''Expected logical and expression''
       [AndKeyword] (\<lambda>_. ParseBitwiseOrExpression) DropOperator"

definition parseBitwiseOrExpression :: "methods \<Rightarrow> (Tree option) parsing" where
  "parseBitwiseOrExpression =
     binaryProduction BitwiseOrExpression ParseBitwiseXorExpression
       ''Expected bitwise or expression''
       [OrOperator] (\<lambda>_. ParseBitwiseXorExpression) DropOperator"

definition parseBitwiseXorExpression :: "methods \<Rightarrow> (Tree option) parsing" where
  "parseBitwiseXorExpression =
     binaryProduction BitwiseXorExpression ParseBitwiseAndExpression
       ''Expected bitwise xor expression''
       [XorOperator] (\<lambda>_. ParseBitwiseAndExpression) DropOperator"

definition parseBitwiseAndExpression :: "methods \<Rightarrow> (Tree option) parsing" where
  "parseBitwiseAndExpression =
     binaryProduction BitwiseAndExpression ParseEqualityExpression
       ''Expected bitwise and expression''
       [AndOperator] (\<lambda>_. ParseEqualityExpression) DropOperator"

definition parseEqualityExpression :: "methods \<Rightarrow> (Tree option) parsing" where
  "parseEqualityExpression =
     binaryProduction EqualityExpression ParseComparisonExpression
       ''Expected equality expression''
       [EqualOperator, NotEqualOperator] (\<lambda>_. ParseComparisonExpression) KeepOperator"

definition parseComparisonExpression :: "methods \<Rightarrow> (Tree option) parsing" where
  "parseComparisonExpression =
     binaryProduction ComparisonExpression ParseShiftExpression
       ''Expected comparison expression''
       [LessThanEqualOperator, GreaterThanEqualOperator, LessThanOperator,
        GreaterThanOperator, AsKeyword, IsKeyword, InKeyword]
       (\<lambda>operator. if tok_type operator = AsKeyword \<or> tok_type operator = IsKeyword
                    then ParseUnaryType else ParseShiftExpression)
       KeepOperator"

definition parseShiftExpression :: "methods \<Rightarrow> (Tree option) parsing" where
  "parseShiftExpression =
     binaryProduction ShiftExpression ParseTermExpression ''Expected shift expression''
       [LeftShiftOperator, RightShiftOperator, UnsignedRightShiftOperator]
       (\<lambda>_. ParseTermExpression) KeepOperator"

definition parseTermExpression :: "methods \<Rightarrow> (Tree option) parsing" where
  "parseTermExpression =
     binaryProduction TermExpression ParseFactorExpression ''Expected term expression''
       [PlusOperator, MinusOperator] (\<lambda>_. ParseFactorExpression) KeepOperatorFirst"

definition parseFactorExpression :: "methods \<Rightarrow> (Tree option) parsing" where
  "parseFactorExpression =
     binaryProduction FactorExpression ParseRangeExpression ''Expected factor expression''
       [TimesOperator, DivideOperator, ModuloOperator] (\<lambda>_. ParseRangeExpression)
       KeepOperator"

definition treeItems :: "Tree option \<Rightarrow> Item list" where
  "treeItems x = (case x of None \<Rightarrow> [] | Some t \<Rightarrow> [TreeItem t])"

definition tokenItems :: "Token option \<Rightarrow> Item list" where
  "tokenItems x = (case x of None \<Rightarrow> [] | Some t \<Rightarrow> [TokenItem t])"

definition parseRangeExpression :: "methods \<Rightarrow> (Tree option) parsing" where
  "parseRangeExpression rec P =
     (case rec ParseUnaryExpression (push P) of
        None \<Rightarrow> None
      | Some (lhs, P1) \<Rightarrow>
          (case consumeAny [InclusiveRangeOperator, ExclusiveRangeOperator] P1 of
             (operator, P2) \<Rightarrow>
               (case (if operator = None then Some (None, P2)
                      else rec ParseUnaryExpression P2) of
                  None \<Rightarrow> None
                | Some (rhs, P3) \<Rightarrow>
                    if lhs = None \<and> rhs = None
                    then throwHere ''Expected range expression'' P3
                    else tree RangeExpression
                           (treeItems lhs @ tokenItems operator @ treeItems rhs) True P3)))"

definition prefixOperators ::
  "Item list \<Rightarrow> Parser \<Rightarrow> ((Item list, Tree option) flow \<times> Parser) option" where
  "prefixOperators result P =
     (case consumeAny [NotKeyword, NotOperator, PlusOperator, MinusOperator, TimesOperator,
                       AndOperator] P of
        (None, P') \<Rightarrow> Some (Break result, P')
      | (Some operator, P') \<Rightarrow> Some (Continue (result @ [TokenItem operator]), P'))"

definition parseUnaryExpression :: "methods \<Rightarrow> (Tree option) parsing" where
  "parseUnaryExpression rec P =
     whileLoop prefixOperators [] (\<lambda>result.
     require rec ParseReferenceExpression ''Expected expression'' (\<lambda>operand.
     tree UnaryExpression (result @ [TreeItem operand]) True)) (push P)"

definition accesses ::
  "methods \<Rightarrow> Item list \<Rightarrow> Parser \<Rightarrow> ((Item list, Tree option) flow \<times> Parser) option" where
  "accesses rec result P =
     (case firstOf rec [ParsePropertyAccess, ParseOptionalPropertyAccess, ParseArrayIndex,
                        ParseMethodCall] P of
        None \<Rightarrow> None
      | Some (None, P') \<Rightarrow> Some (Break result, P')
      | Some (Some match, P') \<Rightarrow> Some (Continue (result @ [TreeItem match]), P'))"

definition parseReferenceExpression :: "methods \<Rightarrow> (Tree option) parsing" where
  "parseReferenceExpression rec P =
     require rec ParseLiteralValue ''Expected value'' (\<lambda>lhs.
     whileLoop (accesses rec) [TreeItem lhs] (\<lambda>result.
     tree ReferenceExpression result True)) (push P)"

definition parseLiteralValue :: "methods \<Rightarrow> (Tree option) parsing" where
  "parseLiteralValue rec P =
     (case rec ParseArrayInitializer (push P) of
        None \<Rightarrow> None
      | Some (Some array, P1) \<Rightarrow> tree LiteralValue [TreeItem array] True P1
      | Some (None, P1) \<Rightarrow>
          (case consumeAny
                  [Identifier, StringLiteral, IntLiteral, FloatLiteral, BinaryLiteral,
                   OctalLiteral, HexadecimalLiteral, BoolLiteral, NullKeyword, ThisKeyword,
                   SuperKeyword] P1 of
             (Some value, P2) \<Rightarrow> tree LiteralValue [TokenItem value] True P2
           | (None, P2) \<Rightarrow>
               (case rec ParseCast P2 of
                  None \<Rightarrow> None
                | Some (Some cast, P3) \<Rightarrow> tree LiteralValue [TreeItem cast] True P3
                | Some (None, P3) \<Rightarrow>
                    expect OpenParenthesis ''Expected value'' (\<lambda>_.
                    require rec ParseExpressionSequence ''Expected expression sequence''
                      (\<lambda>value.
                    expect CloseParenthesis ''Unterminated expression sequence'' (\<lambda>_.
                    tree LiteralValue [TreeItem value] True))) P3)))"

definition parseCast :: "methods \<Rightarrow> (Tree option) parsing" where
  "parseCast rec P =
     expect OpenParenthesis ''Expected cast'' (\<lambda>_.
     require rec ParseUnaryType ''Expected cast type'' (\<lambda>type.
     expect CloseParenthesis ''Unterminated cast'' (\<lambda>_.
     require rec ParseLiteralValue ''Expected cast value'' (\<lambda>value.
     tree TypeCast [TreeItem type, TreeItem value] True)))) (push P)"

definition parsePropertyAccess :: "methods \<Rightarrow> (Tree option) parsing" where
  "parsePropertyAccess rec P =
     expect AccessOperator ''Expected member access'' (\<lambda>_.
     expect Identifier ''Expected identifier'' (\<lambda>identifier.
     tree PropertyAccess [TokenItem identifier] True)) (push P)"

definition parseOptionalPropertyAccess :: "methods \<Rightarrow> (Tree option) parsing" where
  "parseOptionalPropertyAccess rec P =
     expect OptionalAccessOperator ''Expected optional reference'' (\<lambda>_ P1.
       case consume Identifier P1 of
         (Some identifier, P2) \<Rightarrow>
           tree OptionalPropertyAccess [TokenItem identifier] True P2
       | (None, P2) \<Rightarrow>
           (case firstOf rec [ParseArrayIndex, ParseMethodCall] P2 of
              None \<Rightarrow> None
            | Some (None, P3) \<Rightarrow> throwHere ''Expected reference'' P3
            | Some (Some match, P3) \<Rightarrow>
                tree OptionalPropertyAccess [TreeItem match] True P3))
       (push P)"

definition parseArrayIndex :: "methods \<Rightarrow> (Tree option) parsing" where
  "parseArrayIndex rec P =
     expect OpenBracket ''Expected array index'' (\<lambda>_.
     require rec ParseExpressionSequence ''Expected expression sequence'' (\<lambda>index.
     expect CloseBracket ''Unterminated array index'' (\<lambda>_.
     tree ArrayIndex [TreeItem index] True))) (push P)"

definition parseMethodCall :: "methods \<Rightarrow> (Tree option) parsing" where
  "parseMethodCall =
     bracketedList MethodCall OpenParenthesis ''Expected call''
       ParseMethodCallArgument ''Expected call argument'' CloseParenthesis ''Unterminated call''"

definition parseArrayInitializer :: "methods \<Rightarrow> (Tree option) parsing" where
  "parseArrayInitializer =
     bracketedList ArrayInitializer OpenBracket ''Expected array initializer''
       ParseArrayValue ''Expected array value'' CloseBracket ''Unterminated array initializer''"

text \<open>\<open>parseArrayValue\<close> and \<open>parseMethodCallArgument\<close> differ in the kind of tree only.\<close>

definition wrappedExpression :: "TreeType \<Rightarrow> methods \<Rightarrow> (Tree option) parsing" where
  "wrappedExpression ty rec P =
     require rec ParseAssignmentExpression ''Expected expression'' (\<lambda>argument.
     tree ty [TreeItem argument] True) (push P)"

definition parseArrayValue :: "methods \<Rightarrow> (Tree option) parsing" where
  "parseArrayValue = wrappedExpression ArrayValue"

definition parseMethodCallArgument :: "methods \<Rightarrow> (Tree option) parsing" where
  "parseMethodCallArgument = wrappedExpression MethodCallArgument"

subsection \<open>The parser as a whole\<close>

primrec methodOf :: "production \<Rightarrow> methods \<Rightarrow> (Tree option) parsing" where
  "methodOf ParseBody = parseBody"
| "methodOf ParseStatement = parseStatement"
| "methodOf ParseLabeledStatement = parseLabeledStatement"
| "methodOf ParseBlockStatement = parseBlockStatement"
| "methodOf ParseIfStatement = parseIfStatement"
| "methodOf ParseWhileStatement = parseWhileStatement"
| "methodOf ParseMatchStatement = parseMatchStatement"
| "methodOf ParseMatchOption = parseMatchOption"
| "methodOf ParseDefStatement = parseDefStatement"
| "methodOf ParseParameters = parseParameters"
| "methodOf ParseParameter = parseParameter"
| "methodOf ParseDoStatement = parseDoStatement"
| "methodOf ParseForStatement = parseForStatement"
| "methodOf ParseReturnStatement = parseReturnStatement"
| "methodOf ParseContinueStatement = parseContinueStatement"
| "methodOf ParseBreakStatement = parseBreakStatement"
| "methodOf ParseEmptyStatement = parseEmptyStatement"
| "methodOf ParseExpressionStatement = parseExpressionStatement"
| "methodOf ParseFieldStatement = parseFieldStatement"
| "methodOf ParseUnionType = parseUnionType"
| "methodOf ParseIntersectionType = parseIntersectionType"
| "methodOf ParseUnaryType = parseUnaryType"
| "methodOf ParseArrayType = parseArrayType"
| "methodOf ParseGenericType = parseGenericType"
| "methodOf ParseExpressionSequence = parseExpressionSequence"
| "methodOf ParseAssignmentExpression = parseAssignmentExpression"
| "methodOf ParseTernaryExpression = parseTernaryExpression"
| "methodOf ParseCoalesceExpression = parseCoalesceExpression"
| "methodOf ParseLogicalOrExpression = parseLogicalOrExpression"
| "methodOf ParseLogicalAndExpression = parseLogicalAndExpression"
| "methodOf ParseBitwiseOrExpression = parseBitwiseOrExpression"
| "methodOf ParseBitwiseXorExpression = parseBitwiseXorExpression"
| "methodOf ParseBitwiseAndExpression = parseBitwiseAndExpression"
| "methodOf ParseEqualityExpression = parseEqualityExpression"
| "methodOf ParseComparisonExpression = parseComparisonExpression"
| "methodOf ParseShiftExpression = parseShiftExpression"
| "methodOf ParseTermExpression = parseTermExpression"
| "methodOf ParseFactorExpression = parseFactorExpression"
| "methodOf ParseRangeExpression = parseRangeExpression"
| "methodOf ParseUnaryExpression = parseUnaryExpression"
| "methodOf ParseReferenceExpression = parseReferenceExpression"
| "methodOf ParseLiteralValue = parseLiteralValue"
| "methodOf ParseCast = parseCast"
| "methodOf ParsePropertyAccess = parsePropertyAccess"
| "methodOf ParseOptionalPropertyAccess = parseOptionalPropertyAccess"
| "methodOf ParseArrayIndex = parseArrayIndex"
| "methodOf ParseMethodCall = parseMethodCall"
| "methodOf ParseArrayInitializer = parseArrayInitializer"
| "methodOf ParseArrayValue = parseArrayValue"
| "methodOf ParseMethodCallArgument = parseMethodCallArgument"

subsection \<open>Monotonicity\<close>

text \<open>
  A production is monotone in \<open>rec\<close>: what it returns with one family of methods it
  returns with any family that returns at least as often. This is what makes the
  recursive definition of \<open>parse\<close> below legitimate.
\<close>

lemma loop_extends:
  assumes b: "\<And>acc s x. body1 acc s = Some x \<Longrightarrow> body2 acc s = Some x"
    and run: "loop body1 acc s = Some r"
  shows "loop body2 acc s = Some r"
proof -
  have "body1 = body1 \<longrightarrow> loop body2 acc s = Some r"
  proof (rule loop.raw_induct
      [where P = "\<lambda>bd acc s r. bd = body1 \<longrightarrow> loop body2 acc s = Some r", OF _ run])
    fix lp :: "('a \<Rightarrow> 'b \<Rightarrow> (('a, 'c) flow \<times> 'b) option) \<Rightarrow> 'a \<Rightarrow> 'b \<Rightarrow> (('a + 'c) \<times> 'b) option"
      and bd acc s r
    assume IH: "\<And>bd acc s y. lp bd acc s = Some y \<Longrightarrow> bd = body1 \<longrightarrow> loop body2 acc s = Some y"
      and step: "(case bd acc s of
                    None \<Rightarrow> None
                  | Some (Continue acc', s') \<Rightarrow> lp bd acc' s'
                  | Some (Break acc', s') \<Rightarrow> Some (Inl acc', s')
                  | Some (Return r, s') \<Rightarrow> Some (Inr r, s')) = Some r"
    show "bd = body1 \<longrightarrow> loop body2 acc s = Some r"
    proof
      assume eq: "bd = body1"
      from step obtain x where x: "body1 acc s = Some x"
        unfolding eq by (cases "body1 acc s") auto
      then have x2: "body2 acc s = Some x"
        by (rule b)
      show "loop body2 acc s = Some r"
        using step x x2 IH unfolding eq
        by (subst loop.simps) (auto split: flow.splits prod.splits)
    qed
  qed
  then show ?thesis by simp
qed

lemma loop_mono [partial_function_mono]:
  fixes body :: "('c \<Rightarrow> 'd option) \<Rightarrow> 'a \<Rightarrow> 's \<Rightarrow> (('a, 'r) flow \<times> 's) option"
  assumes "\<And>acc s. mono_option (\<lambda>f. body f acc s)"
  shows "mono_option (\<lambda>f. loop (body f) acc s)"
proof (rule monotoneI)
  fix f g :: "'c \<Rightarrow> 'd option"
  assume fg: "fun_ord option_ord f g"
  have b: "body g acc s = Some x" if "body f acc s = Some x" for acc s x
  proof -
    have "option_ord (body f acc s) (body g acc s)"
      using assms [of acc s] fg unfolding monotone_def by blast
    with that show ?thesis
      by (simp add: flat_ord_def)
  qed
  show "option_ord (loop (body f) acc s) (loop (body g) acc s)"
    using loop_extends [of "body f" "body g", OF b]
    by (cases "loop (body f) acc s") (auto simp: flat_ord_def)
qed

lemma case_prod_mono [partial_function_mono]:
  "(\<And>a b. mono_option (\<lambda>f. g f a b)) \<Longrightarrow> mono_option (\<lambda>f. case x of (a, b) \<Rightarrow> g f a b)"
  by (cases x) simp

lemma case_option_mono [partial_function_mono]:
  "mono_option (\<lambda>f. a f) \<Longrightarrow> (\<And>y. mono_option (\<lambda>f. b f y)) \<Longrightarrow>
     mono_option (\<lambda>f. case x of None \<Rightarrow> a f | Some y \<Rightarrow> b f y)"
  by (cases x) simp_all

lemma case_sum_mono [partial_function_mono]:
  "(\<And>y. mono_option (\<lambda>f. a f y)) \<Longrightarrow> (\<And>y. mono_option (\<lambda>f. b f y)) \<Longrightarrow>
     mono_option (\<lambda>f. case x of Inl y \<Rightarrow> a f y | Inr y \<Rightarrow> b f y)"
  by (cases x) simp_all

lemma case_call_mono [partial_function_mono]:
  assumes "mono_option (\<lambda>f. B f)" and "\<And>y. mono_option (\<lambda>f. C f y)"
  shows "mono_option (\<lambda>f. case B f of None \<Rightarrow> None | Some y \<Rightarrow> C f y)"
proof -
  have "(\<lambda>f. case B f of None \<Rightarrow> None | Some y \<Rightarrow> C f y) = (\<lambda>f. Option.bind (B f) (C f))"
    by (auto split: option.splits)
  then show ?thesis
    using bind_mono [of B "\<lambda>y f. C f y"] assms by simp
qed

lemma whileLoop_mono [partial_function_mono]:
  fixes body :: "('c \<Rightarrow> 'd option) \<Rightarrow> 'a \<Rightarrow> 's \<Rightarrow> (('a, 'r) flow \<times> 's) option"
  assumes "\<And>acc s. mono_option (\<lambda>f. body f acc s)"
    and "\<And>acc s. mono_option (\<lambda>f. k f acc s)"
  shows "mono_option (\<lambda>f. whileLoop (body f) acc (k f) s)"
  unfolding whileLoop_def
  by (intro partial_function_mono assms)

lemma expect_mono [partial_function_mono]:
  assumes "\<And>t P. mono_option (\<lambda>f. k f t P)"
  shows "mono_option (\<lambda>f. expect ty message (k f) P)"
  unfolding expect_def
  by (intro partial_function_mono assms)

lemma expectAny_mono [partial_function_mono]:
  assumes "\<And>t P. mono_option (\<lambda>f. k f t P)"
  shows "mono_option (\<lambda>f. expectAny tys message (k f) P)"
  unfolding expectAny_def
  by (intro partial_function_mono assms)

lemma require_mono [partial_function_mono]:
  assumes "\<And>q Q. mono_option (\<lambda>f. rec f q Q)"
    and "\<And>t P. mono_option (\<lambda>f. k f t P)"
  shows "mono_option (\<lambda>f. require (rec f) p message (k f) P)"
  unfolding require_def
  by (intro partial_function_mono assms)

lemma firstOf_mono [partial_function_mono]:
  assumes "\<And>q Q. mono_option (\<lambda>f. rec f q Q)"
  shows "mono_option (\<lambda>f. firstOf (rec f) ps P)"
proof (induction ps arbitrary: P)
  case Nil
  show ?case by (simp add: partial_function_mono)
next
  case (Cons p ps)
  show ?case
    unfolding firstOf.simps
    by (intro partial_function_mono assms Cons)
qed

lemma statements_mono [partial_function_mono]:
  assumes "\<And>q Q. mono_option (\<lambda>f. rec f q Q)"
  shows "mono_option (\<lambda>f. statements (rec f) result P)"
  unfolding statements_def
  by (intro partial_function_mono assms)

lemma matchOptions_mono [partial_function_mono]:
  assumes "\<And>q Q. mono_option (\<lambda>f. rec f q Q)"
  shows "mono_option (\<lambda>f. matchOptions (rec f) acc P)"
  unfolding matchOptions_def
  by (intro partial_function_mono assms)

lemma listElements_mono [partial_function_mono]:
  assumes "\<And>q Q. mono_option (\<lambda>f. rec f q Q)"
  shows "mono_option (\<lambda>f. listElements (rec f) element message result P)"
  unfolding listElements_def
  by (intro partial_function_mono assms)

lemma operatorLoop_mono [partial_function_mono]:
  assumes "\<And>q Q. mono_option (\<lambda>f. rec f q Q)"
  shows "mono_option (\<lambda>f. operatorLoop (rec f) kinds operand mode result P)"
  unfolding operatorLoop_def
  by (intro partial_function_mono assms)

lemma typeModifiers_mono [partial_function_mono]:
  assumes "\<And>q Q. mono_option (\<lambda>f. rec f q Q)"
  shows "mono_option (\<lambda>f. typeModifiers (rec f) result P)"
  unfolding typeModifiers_def
  by (intro partial_function_mono assms)

lemma accesses_mono [partial_function_mono]:
  assumes "\<And>q Q. mono_option (\<lambda>f. rec f q Q)"
  shows "mono_option (\<lambda>f. accesses (rec f) result P)"
  unfolding accesses_def
  by (intro partial_function_mono assms)

lemma bracketedList_mono [partial_function_mono]:
  assumes "\<And>q Q. mono_option (\<lambda>f. rec f q Q)"
  shows "mono_option
    (\<lambda>f. bracketedList ty opening expected element missing closing unterminated (rec f) P)"
  unfolding bracketedList_def
  by (intro partial_function_mono assms)

lemma jumpStatement_mono [partial_function_mono]:
  "mono_option (\<lambda>f. jumpStatement ty keyword expected (rec f) P)"
  unfolding jumpStatement_def
  by (intro partial_function_mono)

lemma binaryProduction_mono [partial_function_mono]:
  assumes "\<And>q Q. mono_option (\<lambda>f. rec f q Q)"
  shows "mono_option (\<lambda>f. binaryProduction ty first expected kinds operand mode (rec f) P)"
  unfolding binaryProduction_def
  by (intro partial_function_mono assms)

lemma wrappedExpression_mono [partial_function_mono]:
  assumes "\<And>q Q. mono_option (\<lambda>f. rec f q Q)"
  shows "mono_option (\<lambda>f. wrappedExpression ty (rec f) P)"
  unfolding wrappedExpression_def
  by (intro partial_function_mono assms)

lemmas production_defs =
  parseBody_def parseStatement_def parseLabeledStatement_def parseBlockStatement_def
  parseIfStatement_def parseWhileStatement_def parseMatchStatement_def parseMatchOption_def
  parseDefStatement_def parseParameters_def parseParameter_def parseDoStatement_def
  parseForStatement_def parseReturnStatement_def parseContinueStatement_def
  parseBreakStatement_def parseEmptyStatement_def parseExpressionStatement_def
  parseFieldStatement_def parseUnionType_def parseIntersectionType_def parseUnaryType_def
  parseArrayType_def parseGenericType_def parseExpressionSequence_def
  parseAssignmentExpression_def parseTernaryExpression_def parseCoalesceExpression_def
  parseLogicalOrExpression_def parseLogicalAndExpression_def parseBitwiseOrExpression_def
  parseBitwiseXorExpression_def parseBitwiseAndExpression_def parseEqualityExpression_def
  parseComparisonExpression_def parseShiftExpression_def parseTermExpression_def
  parseFactorExpression_def parseRangeExpression_def parseUnaryExpression_def
  parseReferenceExpression_def parseLiteralValue_def parseCast_def parsePropertyAccess_def
  parseOptionalPropertyAccess_def parseArrayIndex_def parseMethodCall_def
  parseArrayInitializer_def parseArrayValue_def parseMethodCallArgument_def

lemma production_mono:
  assumes "\<And>q Q. mono_option (\<lambda>f. rec f q Q)"
  shows "mono_option (\<lambda>f. parseBody (rec f) P)"
    and "mono_option (\<lambda>f. parseStatement (rec f) P)"
    and "mono_option (\<lambda>f. parseLabeledStatement (rec f) P)"
    and "mono_option (\<lambda>f. parseBlockStatement (rec f) P)"
    and "mono_option (\<lambda>f. parseIfStatement (rec f) P)"
    and "mono_option (\<lambda>f. parseWhileStatement (rec f) P)"
    and "mono_option (\<lambda>f. parseMatchStatement (rec f) P)"
    and "mono_option (\<lambda>f. parseMatchOption (rec f) P)"
    and "mono_option (\<lambda>f. parseDefStatement (rec f) P)"
    and "mono_option (\<lambda>f. parseParameters (rec f) P)"
    and "mono_option (\<lambda>f. parseParameter (rec f) P)"
    and "mono_option (\<lambda>f. parseDoStatement (rec f) P)"
    and "mono_option (\<lambda>f. parseForStatement (rec f) P)"
    and "mono_option (\<lambda>f. parseReturnStatement (rec f) P)"
    and "mono_option (\<lambda>f. parseContinueStatement (rec f) P)"
    and "mono_option (\<lambda>f. parseBreakStatement (rec f) P)"
    and "mono_option (\<lambda>f. parseEmptyStatement (rec f) P)"
    and "mono_option (\<lambda>f. parseExpressionStatement (rec f) P)"
    and "mono_option (\<lambda>f. parseFieldStatement (rec f) P)"
    and "mono_option (\<lambda>f. parseUnionType (rec f) P)"
    and "mono_option (\<lambda>f. parseIntersectionType (rec f) P)"
    and "mono_option (\<lambda>f. parseUnaryType (rec f) P)"
    and "mono_option (\<lambda>f. parseArrayType (rec f) P)"
    and "mono_option (\<lambda>f. parseGenericType (rec f) P)"
    and "mono_option (\<lambda>f. parseExpressionSequence (rec f) P)"
    and "mono_option (\<lambda>f. parseAssignmentExpression (rec f) P)"
    and "mono_option (\<lambda>f. parseTernaryExpression (rec f) P)"
    and "mono_option (\<lambda>f. parseCoalesceExpression (rec f) P)"
    and "mono_option (\<lambda>f. parseLogicalOrExpression (rec f) P)"
    and "mono_option (\<lambda>f. parseLogicalAndExpression (rec f) P)"
    and "mono_option (\<lambda>f. parseBitwiseOrExpression (rec f) P)"
    and "mono_option (\<lambda>f. parseBitwiseXorExpression (rec f) P)"
    and "mono_option (\<lambda>f. parseBitwiseAndExpression (rec f) P)"
    and "mono_option (\<lambda>f. parseEqualityExpression (rec f) P)"
    and "mono_option (\<lambda>f. parseComparisonExpression (rec f) P)"
    and "mono_option (\<lambda>f. parseShiftExpression (rec f) P)"
    and "mono_option (\<lambda>f. parseTermExpression (rec f) P)"
    and "mono_option (\<lambda>f. parseFactorExpression (rec f) P)"
    and "mono_option (\<lambda>f. parseRangeExpression (rec f) P)"
    and "mono_option (\<lambda>f. parseUnaryExpression (rec f) P)"
    and "mono_option (\<lambda>f. parseReferenceExpression (rec f) P)"
    and "mono_option (\<lambda>f. parseLiteralValue (rec f) P)"
    and "mono_option (\<lambda>f. parseCast (rec f) P)"
    and "mono_option (\<lambda>f. parsePropertyAccess (rec f) P)"
    and "mono_option (\<lambda>f. parseOptionalPropertyAccess (rec f) P)"
    and "mono_option (\<lambda>f. parseArrayIndex (rec f) P)"
    and "mono_option (\<lambda>f. parseMethodCall (rec f) P)"
    and "mono_option (\<lambda>f. parseArrayInitializer (rec f) P)"
    and "mono_option (\<lambda>f. parseArrayValue (rec f) P)"
    and "mono_option (\<lambda>f. parseMethodCallArgument (rec f) P)"
  unfolding production_defs Let_def
  by (intro partial_function_mono assms)+

lemma methodOf_mono [partial_function_mono]:
  assumes "\<And>q Q. mono_option (\<lambda>f. rec f q Q)"
  shows "mono_option (\<lambda>f. methodOf p (rec f) P)"
  by (cases p) (simp_all only: methodOf.simps production_mono [OF assms])

text \<open>
  The methods of the parser: \<open>parse p\<close> is the method that the tag \<open>p\<close> names, with
  \<open>parse\<close> itself for the methods it calls.
\<close>

partial_function (option) parse :: "production \<Rightarrow> Parser \<Rightarrow> (Tree option \<times> Parser) option" where
  "parse p P = methodOf p parse P"

text \<open>
  \<open>ast()\<close>, for a parser made by the constructor from \<open>tokens\<close>. The result is the tree,
  or \<open>this.error\<close>, which is a \<open>ParserError\<close> or \<open>null\<close>.
\<close>

definition ast :: "Token list \<Rightarrow> (ParserError option + Tree) option" where
  "ast tokens =
     Option.bind (parse ParseBody (newParser tokens)) (\<lambda>(result, P).
       Option.bind
         (case rootTokens P of
            [] \<Rightarrow> Some (None, P)
          | leftover # _ \<Rightarrow>
              throw (parserError ''Unexpected token'' (Some (tok_text leftover))
                       (tok_start leftover) (tok_stop leftover)) False P)
         (\<lambda>(_, P').
            case result of
              None \<Rightarrow> Some (Inl (error P'))
            | Some t \<Rightarrow> if rootTokens P' \<noteq> [] then Some (Inl (error P')) else Some (Inr t)))"

text \<open>
  The test harness of the repository: lex the text and, unless that fails, hand the
  tokens to a new parser and take its \<open>ast()\<close>.
\<close>

definition parseSource :: "jsstring \<Rightarrow> (LexerError + ParserError option + Tree) option" where
  "parseSource src =
     (case lexSource src of
        Inl e \<Rightarrow> Some (Inl e)
      | Inr tokens \<Rightarrow> map_option Inr (ast tokens))"

text \<open>
  \<open>parseMatchStatement\<close> read as "zero or more options, then a body, then the closing
  brace": the production without the branch that throws when there is no fallback.
\<close>

definition matchOptionsThenBody :: "methods \<Rightarrow> (Tree option) parsing" where
  "matchOptionsThenBody rec P =
     expect MatchKeyword ''Expected match statement'' (\<lambda>_.
     expect OpenParenthesis ''Expected match value'' (\<lambda>_.
     require rec ParseExpressionSequence ''Expected expression sequence'' (\<lambda>value.
     expect CloseParenthesis ''Unterminated match value'' (\<lambda>_.
     expect OpenBrace ''Expected match body'' (\<lambda>_.
     whileLoop (matchOptions rec) (False, [TreeItem value]) (\<lambda>acc P1.
       case rec ParseBody P1 of
         None \<Rightarrow> None
       | Some (fallback, P2) \<Rightarrow>
           expect CloseBrace ''Unterminated match body'' (\<lambda>_.
           tree MatchStatement (snd acc @ treeItems fallback) True) P2)))))) (push P)"

section \<open>Evaluating the parser\<close>

text \<open>
  The definitions that run the parser on given tokens. A step is evaluated before the
  steps after it: the congruence rules keep the simplifier out of a continuation until
  the value that it waits for is there.
\<close>

lemma bind_weak_cong: "a = b \<Longrightarrow> Option.bind a f = Option.bind b f"
  by simp

lemma map_option_weak_cong: "a = b \<Longrightarrow> map_option f a = map_option f b"
  by simp

lemmas parser_eval =
  parse.simps production_defs bracketedList_def jumpStatement_def
  binaryProduction_def wrappedExpression_def operatorLoop_def listElements_def
  statements_def matchOptions_def typeModifiers_def accesses_def prefixOperators_def
  whileLoop_def loop.simps expect_def expectAny_def require_def firstOf.simps
  consume_def consumeAny.simps tree_def throw_def throwHere_def recordError_def
  pop_def push_def start_def stop_def startOf_def stopOf_def parent_def rootTokens_def
  parserError_def treeItems_def tokenItems_def newParser_def ast_def parseSource_def
  TreeType_defs

section \<open>The error slot\<close>

text \<open>
  C5: \<open>throw\<close> replaces the stored error exactly when the slot is empty or the new error
  starts at or after the stored one, so that of two errors with the same start the later
  one is kept; and nothing else writes the slot: \<open>push\<close>, \<open>pop\<close>, \<open>consume\<close> and
  \<open>tree\<close> leave it as it is.
\<close>

theorem furthest_error_wins:
  "(throw e doPop P = Some (r, P') \<longrightarrow>
      r = None
      \<and> error P' = (case error P of
                      None \<Rightarrow> Some e
                    | Some stored \<Rightarrow> if err_start stored \<le> err_start e then Some e
                                     else Some stored))
   \<and> error (push P) = error P
   \<and> (pop update P = Some P' \<longrightarrow> error P' = error P)
   \<and> error (snd (consume ty P)) = error P
   \<and> error (snd (consumeAny tys P)) = error P
   \<and> (tree kind items doPop P = Some (r, P') \<longrightarrow> error P' = error P)"
proof -
  have any: "error (snd (consumeAny tys P)) = error P"
    by (induction tys arbitrary: P)
       (auto simp: consume_def split: list.splits if_splits)
  show ?thesis
    using any
    by (auto simp: throw_def recordError_def pop_def push_def consume_def tree_def Let_def
        split: option.splits list.splits if_splits)
qed

theorem furthest_error_wins_witness:
  "throw (parserError ''later'' None 4 5) True
     \<lparr>current = [], below = [[]], error = Some (parserError ''earlier'' None 4 9)\<rparr>
   = Some (None, \<lparr>current = [], below = [], error = Some (parserError ''later'' None 4 5)\<rparr>)
   \<and> error \<lparr>current = [], below = [], error = Some (parserError ''later'' None 4 5)\<rparr>
     = Some (parserError ''later'' None 4 5)
   \<and> pop True \<lparr>current = [], below = [[]], error = Some (parserError ''earlier'' None 4 9)\<rparr>
     = Some \<lparr>current = [], below = [], error = Some (parserError ''earlier'' None 4 9)\<rparr>
   \<and> tree Body [] True
         \<lparr>current = [], below = [[]], error = Some (parserError ''earlier'' None 4 9)\<rparr>
     = Some (Some (Tree Body 0 0 []),
             \<lparr>current = [], below = [], error = Some (parserError ''earlier'' None 4 9)\<rparr>)"
  using furthest_error_wins
    [of "parserError ''later'' None 4 5" True
        "\<lparr>current = [], below = [[]], error = Some (parserError ''earlier'' None 4 9)\<rparr>"
        None "\<lparr>current = [], below = [], error = Some (parserError ''later'' None 4 5)\<rparr>"
        True Body "[]" Body "[]"]
  by (simp add: parser_eval)

section \<open>What \<open>ast\<close> returns\<close>

text \<open>The invariant rule for a loop.\<close>

lemma loop_rule:
  fixes body :: "'a \<Rightarrow> 's \<Rightarrow> (('a, 'r) flow \<times> 's) option"
  assumes run: "loop body acc s = Some (x, s')"
    and inv: "I acc s"
    and step: "\<And>a t y t'. I a t \<Longrightarrow> body a t = Some (y, t') \<Longrightarrow>
       (case y of Continue a' \<Rightarrow> I a' t' | Break a' \<Rightarrow> Q (Inl a') t' | Return v \<Rightarrow> Q (Inr v) t')"
  shows "Q x s'"
proof -
  have "body = body \<longrightarrow> I acc s \<longrightarrow> Q (fst (x, s')) (snd (x, s'))"
  proof (rule loop.raw_induct
      [where P = "\<lambda>bd a t r. bd = body \<longrightarrow> I a t \<longrightarrow> Q (fst r) (snd r)", OF _ run])
    fix lp :: "('a \<Rightarrow> 's \<Rightarrow> (('a, 'r) flow \<times> 's) option) \<Rightarrow> 'a \<Rightarrow> 's \<Rightarrow> (('a + 'r) \<times> 's) option"
      and bd a t r
    assume IH: "\<And>bd a t y. lp bd a t = Some y \<Longrightarrow> bd = body \<longrightarrow> I a t \<longrightarrow> Q (fst y) (snd y)"
      and unfolded: "(case bd a t of
                    None \<Rightarrow> None
                  | Some (Continue acc', s') \<Rightarrow> lp bd acc' s'
                  | Some (Break acc', s') \<Rightarrow> Some (Inl acc', s')
                  | Some (Return r, s') \<Rightarrow> Some (Inr r, s')) = Some r"
    show "bd = body \<longrightarrow> I a t \<longrightarrow> Q (fst r) (snd r)"
    proof (intro impI)
      assume eq: "bd = body" and i: "I a t"
      from unfolded obtain y t' where b: "body a t = Some (y, t')"
        unfolding eq by (cases "body a t") auto
      note s = step [OF i b]
      show "Q (fst r) (snd r)"
      proof (cases y)
        case (Continue a')
        with unfolded b eq have "lp body a' t' = Some r" by simp
        from IH [OF this] s Continue show ?thesis by simp
      next
        case (Break a')
        with unfolded b eq s show ?thesis by auto
      next
        case (Return v)
        with unfolded b eq s show ?thesis by auto
      qed
    qed
  qed
  with inv show ?thesis by simp
qed

lemma whileLoop_rule:
  assumes run: "whileLoop body acc k s = Some (r, s')"
    and inv: "I acc s"
    and step: "\<And>a t y t'. I a t \<Longrightarrow> body a t = Some (y, t') \<Longrightarrow>
       (case y of Continue a' \<Rightarrow> I a' t' | Break a' \<Rightarrow> B a' t' | Return v \<Rightarrow> Q v t')"
    and after: "\<And>a t. B a t \<Longrightarrow> k a t = Some (r, s') \<Longrightarrow> Q r s'"
  shows "Q r s'"
proof -
  from run obtain x t where l: "loop body acc s = Some (x, t)"
    and c: "(case x of Inl a \<Rightarrow> k a t | Inr v \<Rightarrow> Some (v, t)) = Some (r, s')"
    by (auto simp: whileLoop_def split: Option.bind_splits)
  have "case x of Inl a \<Rightarrow> B a t | Inr v \<Rightarrow> Q v t"
  proof (rule loop_rule [OF l, where I = I
        and Q = "\<lambda>x t. case x of Inl a \<Rightarrow> B a t | Inr v \<Rightarrow> Q v t"])
    show "I acc s" by (rule inv)
  next
    fix a t y t'
    assume "I a t" "body a t = Some (y, t')"
    from step [OF this] show "case y of
        Continue a' \<Rightarrow> I a' t'
      | Break a' \<Rightarrow> (case Inl a' of Inl a \<Rightarrow> B a t' | Inr v \<Rightarrow> Q v t')
      | Return v \<Rightarrow> (case Inr v of Inl a \<Rightarrow> B a t' | Inr v \<Rightarrow> Q v t')"
      by (cases y) auto
  qed
  with c after show ?thesis
    by (cases x) auto
qed

text \<open>\<open>parseBody\<close> ends in \<open>tree\<close>: when it returns, it returns a tree.\<close>

lemma tree_defined: "tree ty items doPop P = Some (r, P') \<Longrightarrow> r \<noteq> None"
  by (auto simp: tree_def Let_def split: if_splits)

lemma parseBody_defined: "parseBody rec P = Some (r, P') \<Longrightarrow> r \<noteq> None"
  unfolding parseBody_def
  apply (erule whileLoop_rule [where I = "\<lambda>_ _. True" and B = "\<lambda>_ _. True" and Q = "\<lambda>r _. r \<noteq> None"])
    apply simp
   apply (auto simp: statements_def split: option.splits dest: tree_defined)
  done

lemma parse_body_defined: "parse ParseBody P \<noteq> Some (None, P')"
  using parseBody_defined [of parse P None P'] by (auto simp: parse.simps [of ParseBody])

lemma rootTokens_recordError [simp]: "rootTokens (recordError e P) = rootTokens P"
  by (simp add: rootTokens_def recordError_def split: option.splits)

lemma error_recordError:
  "error (recordError e P)
   = Some (case error P of None \<Rightarrow> e
           | Some stored \<Rightarrow> if err_start stored \<le> err_start e then e else stored)"
  by (simp add: recordError_def split: option.splits)



text \<open>The error that \<open>ast\<close> throws for a token left in the root cursor.\<close>

definition unexpectedToken :: "Token \<Rightarrow> ParserError" where
  "unexpectedToken t =
     parserError ''Unexpected token'' (Some (tok_text t)) (tok_start t) (tok_stop t)"

text \<open>
  C4, as stated, fails: for \<open>val x = ;\<close> the body is empty and all four tokens are left,
  but \<open>ast\<close> returns the error of the failed field statement, which starts at 8, after
  the first token left.
\<close>

theorem furthest_error_masks_unexpected_token:
  "lexSource (js ''val x = ;'')
     = Inr [token ValKeyword (js ''val'') 0 3, token Identifier (js ''x'') 4 5,
            token AssignOperator (js ''='') 6 7, token SemicolonPunctuator (js '';'') 8 9]
   \<and> parse ParseBody
         (newParser [token ValKeyword (js ''val'') 0 3, token Identifier (js ''x'') 4 5,
            token AssignOperator (js ''='') 6 7, token SemicolonPunctuator (js '';'') 8 9])
       = Some (Some (Tree Body 0 0 []),
           \<lparr>current = [token ValKeyword (js ''val'') 0 3, token Identifier (js ''x'') 4 5,
              token AssignOperator (js ''='') 6 7, token SemicolonPunctuator (js '';'') 8 9],
            below = [], error = Some (parserError ''Expected expression'' None 8 9)\<rparr>)
   \<and> ast [token ValKeyword (js ''val'') 0 3, token Identifier (js ''x'') 4 5,
            token AssignOperator (js ''='') 6 7, token SemicolonPunctuator (js '';'') 8 9]
       = Some (Inl (Some (parserError ''Expected expression'' None 8 9)))
   \<and> err_message (parserError ''Expected expression'' None 8 9) \<noteq> ''Unexpected token''"
  by (simp add: lexer_eval parser_eval cong: bind_weak_cong map_option_weak_cong)

text \<open>
  C4, amended: when \<open>parseBody\<close> has returned a tree and a token is left in the root
  cursor, \<open>ast\<close> returns the error \<open>Unexpected token\<close> for the first token left, with its
  text and its span, unless the error stored during \<open>parseBody\<close> starts after the start of
  that token; then \<open>ast\<close> returns the stored error.
\<close>

theorem ast_reports_furthest_error:
  assumes "parse ParseBody (newParser tokens) = Some (Some body, P)"
    and "rootTokens P = leftover # rest"
  shows "ast tokens = Some (Inl (Some
           (case error P of
              None \<Rightarrow> unexpectedToken leftover
            | Some stored \<Rightarrow> if err_start stored \<le> tok_start leftover
                             then unexpectedToken leftover else stored)))"
  using assms
  by (simp add: ast_def throw_def error_recordError unexpectedToken_def parserError_def
      split: option.splits)

theorem ast_reports_furthest_error_witness:
  "parse ParseBody (newParser [token CloseParenthesis (js '')'') 0 1])
     = Some (Some (Tree Body 0 0 []),
         \<lparr>current = [token CloseParenthesis (js '')'') 0 1], below = [],
          error = Some (parserError ''Expected statement'' None 0 1)\<rparr>)
   \<and> rootTokens \<lparr>current = [token CloseParenthesis (js '')'') 0 1], below = [],
          error = Some (parserError ''Expected statement'' None 0 1)\<rparr>
       = [token CloseParenthesis (js '')'') 0 1]
   \<and> ast [token CloseParenthesis (js '')'') 0 1]
       = Some (Inl (Some (unexpectedToken (token CloseParenthesis (js '')'') 0 1))))"
proof -
  have p: "parse ParseBody (newParser [token CloseParenthesis (js '')'') 0 1])
     = Some (Some (Tree Body 0 0 []),
         \<lparr>current = [token CloseParenthesis (js '')'') 0 1], below = [],
          error = Some (parserError ''Expected statement'' None 0 1)\<rparr>)"
    by (simp add: lexer_eval parser_eval cong: bind_weak_cong map_option_weak_cong)
  have r: "rootTokens \<lparr>current = [token CloseParenthesis (js '')'') 0 1], below = [],
          error = Some (parserError ''Expected statement'' None 0 1)\<rparr>
       = [token CloseParenthesis (js '')'') 0 1]"
    by (simp add: rootTokens_def)
  from ast_reports_furthest_error [OF p r] p r show ?thesis
    by (simp add: parserError_def token_def)
qed

section \<open>Assignments and match statements\<close>

text \<open>
  C7: \<open>a = b;\<close> parses, to a body of one statement; \<open>a = b = c;\<close> does not: the right
  side of an assignment is a ternary expression, so the second \<open>=\<close>, at 6, is where the
  expression statement wants its semicolon.
\<close>

theorem assignment_takes_one_operator:
  "(\<exists>statement. parseSource (js ''a = b;'')
        = Some (Inr (Inr (Tree Body 0 5 [TreeItem (Tree Statement 0 5 [TreeItem statement])]))))
   \<and> parseSource (js ''a = b = c;'')
        = Some (Inr (Inl (Some (parserError ''Expected semicolon'' None 6 7))))"
  by (simp add: lexer_eval parser_eval cong: bind_weak_cong map_option_weak_cong)

text \<open>The steps of a production that do not depend on what follows them.\<close>

lemma expect_cong: "(\<And>t P'. k1 t P' = k2 t P') \<Longrightarrow> expect ty m k1 P = expect ty m k2 P"
  by (simp add: expect_def split: prod.splits option.splits)

lemma require_cong:
  "(\<And>t P'. k1 t P' = k2 t P') \<Longrightarrow> require rec p m k1 P = require rec p m k2 P"
  by (simp add: require_def split: prod.splits option.splits)

lemma whileLoop_cong:
  "(\<And>a s. k1 a s = k2 a s) \<Longrightarrow> whileLoop b acc k1 s = whileLoop b acc k2 s"
  by (auto simp: whileLoop_def split: Option.bind_splits sum.splits)

lemma body_cong:
  assumes same: "\<And>fb P2. f (Some fb) P2 = g (Some fb) P2"
  shows "(case parse ParseBody P1 of None \<Rightarrow> None | Some (x, P2) \<Rightarrow> f x P2)
   = (case parse ParseBody P1 of None \<Rightarrow> None | Some (x, P2) \<Rightarrow> g x P2)"
proof (cases "parse ParseBody P1")
  case None
  then show ?thesis by simp
next
  case (Some y)
  obtain x P2 where y: "y = (x, P2)" by (cases y)
  with Some parse_body_defined [of P1 P2] obtain fb where "x = Some fb" by (cases x) auto
  with Some y same show ?thesis by simp
qed

lemma match_statement_without_branch:
  "parseMatchStatement parse P = matchOptionsThenBody parse P"
  unfolding parseMatchStatement_def matchOptionsThenBody_def
  by (intro expect_cong require_cong whileLoop_cong body_cong) (simp add: treeItems_def)

text \<open>
  C8: the branch of \<open>parseMatchStatement\<close> that throws
  \<open>Expected match options or fallback\<close> is never taken: \<open>parseBody\<close> does not return
  \<open>undefined\<close>, so the production is the one without that branch, options and then a
  body. \<open>match (n) { }\<close> parses to a match statement of the value and an empty body.
\<close>

theorem match_fallback_always_present:
  "parseMatchStatement parse P = matchOptionsThenBody parse P
   \<and> parse ParseBody P \<noteq> Some (None, P')
   \<and> (\<exists>value. parseSource (js ''match (n) { }'')
         = Some (Inr (Inr (Tree Body 0 12 [TreeItem (Tree Statement 0 12
             [TreeItem (Tree MatchStatement 0 12
                [TreeItem value, TreeItem (Tree Body 12 12 [])])])]))))"
proof -
  have "\<exists>value. parseSource (js ''match (n) { }'')
         = Some (Inr (Inr (Tree Body 0 12 [TreeItem (Tree Statement 0 12
             [TreeItem (Tree MatchStatement 0 12
                [TreeItem value, TreeItem (Tree Body 12 12 [])])])])))"
    by (simp add: lexer_eval parser_eval cong: bind_weak_cong map_option_weak_cong)
  then show ?thesis
    using parse_body_defined [of P P'] match_statement_without_branch [of P] by simp
qed

end
